theory Spec2Isabelle
  imports Main "HOL-Library.AList"
begin

section \<open>Data model of the rendezvous service\<close>

text \<open>
  The service keeps three module-level JavaScript \<open>Map\<close>s: \<open>sessions\<close> (code to session),
  \<open>connections\<close> (connection id to connection state) and \<open>hosts\<close> (host id to host entry).
  Sessions and connections are only ever read by key, so they are partial maps; the host
  registry is iterated by \<open>GET /api/hosts\<close> and by the sweep, so it is an association list
  in insertion order (\<open>AList.update\<close> keeps the position of an existing key and appends a
  new one, as \<open>Map.prototype.set\<close> does).

  Record fields carry a prefix (\<open>s_\<close> session, \<open>c_\<close> connection, \<open>h_\<close> host, \<open>r_\<close> pending
  request, \<open>e_\<close> endpoint, \<open>m_\<close> signaling message, \<open>u_\<close> datagram), since several JavaScript
  objects share field names. A JSON field that may be missing or \<open>null\<close> is an \<open>option\<close>;
  timestamps (\<open>Date.now()\<close>) are integers in milliseconds.
\<close>

datatype status = Waiting | Active | Closed

text \<open>The \<open>peerId\<close> of an endpoint is compared with \<open>===\<close>, which keeps a missing field
  (\<open>undefined\<close>), \<open>null\<close> and a string apart.\<close>

datatype peerId = Undefined | Null | Peer string

record endpoint =
  e_publicIP :: "string option"
  e_publicPort :: "int option"
  e_peerId :: peerId
  e_clientName :: "string option"
  e_updatedAt :: int

record session =
  s_code :: string
  s_hostId :: "string option"
  s_bridgeName :: "string option"
  s_sources :: "string list"
  s_host :: "string option"
  s_clients :: "string list"
  s_createdAt :: int
  s_status :: status
  s_hostEndpoint :: "endpoint option"
  s_clientEndpoints :: "endpoint list option"

record connection =
  c_role :: "string option"
  c_sessionCode :: "string option"

record source =
  name :: string
  enabled :: bool

record request =
  r_clientId :: string
  r_clientName :: string
  r_requestedSource :: string
  r_publicIP :: "string option"
  r_publicPort :: "int option"
  r_requestedAt :: int
  r_acknowledged :: bool

record host =
  h_hostId :: string
  h_computerName :: string
  h_sources :: "source list"
  h_publicIP :: "string option"
  h_publicPort :: int
  h_registeredAt :: int
  h_lastHeartbeat :: int
  h_connectedClients :: "request list"

record state =
  sessions :: "string \<rightharpoonup> session"
  connections :: "string \<rightharpoonup> connection"
  hosts :: "(string \<times> host) list"

definition init :: state where
  "init = \<lparr>sessions = Map.empty, connections = Map.empty, hosts = []\<rparr>"

text \<open>JavaScript truthiness of a string (\<open>''''\<close> is falsy) and of an optional string
  (\<open>null\<close>, \<open>undefined\<close> and \<open>''''\<close> are falsy).\<close>

definition truthy :: "string \<Rightarrow> bool" where
  "truthy s = (s \<noteq> [])"

fun truthyOpt :: "string option \<Rightarrow> bool" where
  "truthyOpt None = False"
| "truthyOpt (Some s) = truthy s"

text \<open>\<open>sessions.get(code)\<close> for a code taken from a message: a missing code finds nothing.\<close>

fun getSession :: "state \<Rightarrow> string option \<Rightarrow> session option" where
  "getSession st None = None"
| "getSession st (Some c) = sessions st c"

section \<open>Code generation\<close>

definition alphabet :: string where
  "alphabet = ''ABCDEFGHJKLMNPQRSTUVWXYZ23456789''"

text \<open>
  Modelled from the spec: \<open>generateCode = customAlphabet(alphabet, 6)\<close> comes from the nanoid
  package, which is not part of the sources. For a 32-symbol alphabet nanoid masks each random
  byte with 31 and takes the symbol at that index, so every byte yields a symbol and the first
  six bytes drawn give the code. The random source is the parameter \<open>rnd\<close>: \<open>rnd i\<close> is the
  \<open>i\<close>-th byte drawn.
\<close>

definition generateCode :: "(nat \<Rightarrow> nat) \<Rightarrow> string" where
  "generateCode rnd = map (\<lambda>i. alphabet ! (rnd i mod 32)) [0..<6]"

section \<open>Session directory\<close>

record createBody =
  b_hostId :: "string option"
  b_bridgeName :: "string option"
  b_sources :: "string list option"

text \<open>\<open>POST /api/session/create\<close>: the generated code is used as it comes; the session is
  stored under it with \<open>sessions.set\<close>, which replaces whatever the key held.\<close>

definition createSession :: "state \<Rightarrow> (nat \<Rightarrow> nat) \<Rightarrow> createBody \<Rightarrow> int \<Rightarrow> state \<times> string" where
  "createSession st rnd b now =
     (let code = generateCode rnd;
          session = \<lparr>s_code = code, s_hostId = b_hostId b, s_bridgeName = b_bridgeName b,
                     s_sources = (case b_sources b of None \<Rightarrow> [] | Some xs \<Rightarrow> xs),
                     s_host = None, s_clients = [], s_createdAt = now, s_status = Waiting,
                     s_hostEndpoint = None, s_clientEndpoints = None\<rparr>
      in (st\<lparr>sessions := (sessions st)(code \<mapsto> session)\<rparr>, code))"

text \<open>The 30-minute session sweep.\<close>

definition sweepSessions :: "state \<Rightarrow> int \<Rightarrow> state" where
  "sweepSessions st now =
     st\<lparr>sessions := (\<lambda>c. case sessions st c of None \<Rightarrow> None
                          | Some s \<Rightarrow> if now - s_createdAt s > 30 * 60 * 1000 then None else Some s)\<rparr>"

text \<open>\<open>POST /api/host/endpoint/:code\<close> and \<open>POST /api/client/endpoint/:code\<close>: the polling
  alternative to the relay. They write only the endpoint fields of a session.\<close>

definition hostEndpoint :: "state \<Rightarrow> string \<Rightarrow> endpoint \<Rightarrow> state \<times> bool" where
  "hostEndpoint st code ep =
     (case sessions st code of
        None \<Rightarrow> (st, False)
      | Some s \<Rightarrow> (st\<lparr>sessions := (sessions st)(code \<mapsto> s\<lparr>s_hostEndpoint := Some ep\<rparr>)\<rparr>, True))"

fun replaceEndpoint :: "endpoint list \<Rightarrow> endpoint \<Rightarrow> endpoint list" where
  "replaceEndpoint [] ep = [ep]"
| "replaceEndpoint (x # xs) ep =
     (if e_peerId x = e_peerId ep then ep # xs else x # replaceEndpoint xs ep)"

definition clientEndpoint :: "state \<Rightarrow> string \<Rightarrow> endpoint \<Rightarrow> state \<times> bool" where
  "clientEndpoint st code ep =
     (case sessions st code of
        None \<Rightarrow> (st, False)
      | Some s \<Rightarrow>
          (let eps = (case s_clientEndpoints s of None \<Rightarrow> [] | Some xs \<Rightarrow> xs)
           in (st\<lparr>sessions := (sessions st)(code \<mapsto>
                   s\<lparr>s_clientEndpoints := Some (replaceEndpoint eps ep)\<rparr>)\<rparr>, True)))"

section \<open>Signaling relay\<close>

text \<open>A parsed signaling message: \<open>{type, code, role, targetId, ...payload}\<close>. The payload is
  opaque to the relay.\<close>

record signal =
  m_type :: string
  m_code :: "string option"
  m_role :: "string option"
  m_targetId :: "string option"
  m_payload :: string

text \<open>What the server writes to a socket. A socket is named by its connection id, so a send is
  a pair of the receiving connection id and the message.\<close>

datatype wsmsg =
    MError string
  | MRegistered "string option" "string option"
  | MHostOnline
  | MHostOffline
  | MClientJoined string
  | MClientLeft string
  | MPong
  | MForward signal string
  | MPeerUdpInfo "string option" string int

type_synonym sends = "(string \<times> wsmsg) list"

datatype exn = TypeError

text \<open>\<open>wss.on('connection')\<close>: the new socket gets an entry with no role and no session.\<close>

definition connect :: "state \<Rightarrow> string \<Rightarrow> state" where
  "connect st cid =
     st\<lparr>connections := (connections st)(cid \<mapsto> \<lparr>c_role = None, c_sessionCode = None\<rparr>)\<rparr>"

text \<open>The loop \<open>ids.forEach(id => { const c = connections.get(id); if (c?.ws) c.ws.send(m) })\<close>
  of the host-online, host-offline notifications.\<close>

primrec notify :: "(string \<rightharpoonup> connection) \<Rightarrow> string list \<Rightarrow> wsmsg \<Rightarrow> sends" where
  "notify conns [] m = []"
| "notify conns (i # ids) m =
     (if conns i \<noteq> None then [(i, m)] else []) @ notify conns ids m"

text \<open>The single notification \<open>if (session.host) { const h = connections.get(session.host);
  if (h?.ws) h.ws.send(m) }\<close>.\<close>

definition notifyHost :: "(string \<rightharpoonup> connection) \<Rightarrow> string option \<Rightarrow> wsmsg \<Rightarrow> sends" where
  "notifyHost conns h m =
     (case h of
        None \<Rightarrow> []
      | Some i \<Rightarrow> if truthy i \<and> conns i \<noteq> None then [(i, m)] else [])"

text \<open>The broadcast loop of \<open>forwardSignal\<close>: every peer with a live connection other than the
  sender.\<close>

primrec forwardEach :: "(string \<rightharpoonup> connection) \<Rightarrow> string \<Rightarrow> string list \<Rightarrow> wsmsg \<Rightarrow> sends" where
  "forwardEach conns fromId [] m = []"
| "forwardEach conns fromId (i # ids) m =
     (if conns i \<noteq> None \<and> i \<noteq> fromId then [(i, m)] else []) @ forwardEach conns fromId ids m"

text \<open>The peers of a broadcast: \<open>role === 'host' ? session.clients : [session.host]\<close>. A
  \<open>null\<close> host has no connection entry, so the one-element list \<open>[null]\<close> sends nothing and is
  the empty list here.\<close>

definition broadcastPeers :: "connection \<Rightarrow> session \<Rightarrow> string list" where
  "broadcastPeers fromConnection s =
     (if c_role fromConnection = Some ''host'' then s_clients s
      else (case s_host s of None \<Rightarrow> [] | Some h \<Rightarrow> [h]))"

definition forwardSignal :: "state \<Rightarrow> string \<Rightarrow> signal \<Rightarrow> sends" where
  "forwardSignal st fromId d =
     (case connections st fromId of
        None \<Rightarrow> []
      | Some fromConnection \<Rightarrow>
          (case getSession st (c_sessionCode fromConnection) of
             None \<Rightarrow> []
           | Some s \<Rightarrow>
               (case m_targetId d of
                  Some t \<Rightarrow>
                    if truthy t
                    then (if connections st t \<noteq> None then [(t, MForward d fromId)] else [])
                    else forwardEach (connections st) fromId (broadcastPeers fromConnection s)
                           (MForward d fromId)
                | None \<Rightarrow>
                    forwardEach (connections st) fromId (broadcastPeers fromConnection s)
                      (MForward d fromId))))"

text \<open>
  \<open>handleSignal\<close>. In the \<open>register\<close> case the role and the session code of the message are
  written to the connection first, then the session is looked up. A missing connection entry
  makes \<open>connection.role = role\<close> throw a \<open>TypeError\<close>.
\<close>

definition register :: "state \<Rightarrow> string \<Rightarrow> signal \<Rightarrow> exn + state \<times> sends" where
  "register st connectionId d =
     (case connections st connectionId of
        None \<Rightarrow> Inl TypeError
      | Some connection \<Rightarrow>
          (let st1 = st\<lparr>connections := (connections st)(connectionId \<mapsto>
                         connection\<lparr>c_role := m_role d, c_sessionCode := m_code d\<rparr>)\<rparr>;
               ack = [(connectionId, MRegistered (m_role d) (m_code d))]
           in (case m_code d of
                 None \<Rightarrow> Inr (st1, [(connectionId, MError ''Session not found'')])
               | Some code \<Rightarrow>
                   (case sessions st1 code of
                      None \<Rightarrow> Inr (st1, [(connectionId, MError ''Session not found'')])
                    | Some s \<Rightarrow>
                        if m_role d = Some ''host'' then
                          Inr (st1\<lparr>sessions := (sessions st1)(code \<mapsto>
                                     s\<lparr>s_host := Some connectionId, s_status := Active\<rparr>)\<rparr>,
                               notify (connections st1) (s_clients s) MHostOnline @ ack)
                        else if m_role d = Some ''client'' then
                          Inr (st1\<lparr>sessions := (sessions st1)(code \<mapsto>
                                     s\<lparr>s_clients := s_clients s @ [connectionId]\<rparr>)\<rparr>,
                               notifyHost (connections st1) (s_host s) (MClientJoined connectionId)
                                 @ ack)
                        else Inr (st1, ack)))))"

definition relayed :: "string \<Rightarrow> bool" where
  "relayed t = (t = ''offer'' \<or> t = ''answer'' \<or> t = ''ice-candidate''
                \<or> t = ''connection_info'' \<or> t = ''udp_endpoint'')"

definition handleSignal :: "state \<Rightarrow> string \<Rightarrow> signal \<Rightarrow> exn + state \<times> sends" where
  "handleSignal st connectionId d =
     (if m_type d = ''register'' then register st connectionId d
      else if relayed (m_type d) then Inr (st, forwardSignal st connectionId d)
      else if m_type d = ''ping'' then Inr (st, [(connectionId, MPong)])
      else Inr (st, []))"

text \<open>\<open>ws.on('message')\<close> for a message that parsed: an exception of \<open>handleSignal\<close> is caught
  and answered with an error; the state is as it was (the only throw comes before any write).\<close>

definition onMessage :: "state \<Rightarrow> string \<Rightarrow> signal \<Rightarrow> state \<times> sends" where
  "onMessage st connectionId d =
     (case handleSignal st connectionId d of
        Inl e \<Rightarrow> (st, [(connectionId, MError ''Invalid message format'')])
      | Inr r \<Rightarrow> r)"

text \<open>
  \<open>handleDisconnect\<close>. Its first part, \<open>if (connection?.sessionCode) { ... }\<close>, is
  \<open>leaveSession\<close>: the session named by the connection's current \<open>sessionCode\<close> is updated
  according to the connection's current \<open>role\<close>. Then the connection entry is deleted.
\<close>

definition leaveSession :: "state \<Rightarrow> string \<Rightarrow> state \<times> sends" where
  "leaveSession st connectionId =
     (case connections st connectionId of
        None \<Rightarrow> (st, [])
      | Some connection \<Rightarrow>
          (case c_sessionCode connection of
             None \<Rightarrow> (st, [])
           | Some code \<Rightarrow>
               if \<not> truthy code then (st, [])
               else
                 (case sessions st code of
                    None \<Rightarrow> (st, [])
                  | Some s \<Rightarrow>
                      if c_role connection = Some ''host'' then
                        (st\<lparr>sessions := (sessions st)(code \<mapsto>
                               s\<lparr>s_host := None, s_status := Waiting\<rparr>)\<rparr>,
                         notify (connections st) (s_clients s) MHostOffline)
                      else if c_role connection = Some ''client'' then
                        (st\<lparr>sessions := (sessions st)(code \<mapsto>
                               s\<lparr>s_clients := filter (\<lambda>i. i \<noteq> connectionId) (s_clients s)\<rparr>)\<rparr>,
                         notifyHost (connections st) (s_host s) (MClientLeft connectionId))
                      else (st, []))))"

definition handleDisconnect :: "state \<Rightarrow> string \<Rightarrow> state \<times> sends" where
  "handleDisconnect st connectionId =
     (let st1 = fst (leaveSession st connectionId)
      in (st1\<lparr>connections := (connections st1)(connectionId := None)\<rparr>,
          snd (leaveSession st connectionId)))"

section \<open>Host registry\<close>

text \<open>An HTTP answer: the JSON body of a success, or the status code and message of a
  failure (\<open>success: false\<close>).\<close>

datatype 'a reply = Ok 'a | Fail nat string

definition HOST_TIMEOUT_MS :: int where
  "HOST_TIMEOUT_MS = 45000"

text \<open>\<open>a || b\<close> on optional strings, and on an optional string with a string default.\<close>

definition orElse :: "string option \<Rightarrow> string option \<Rightarrow> string option" where
  "orElse a b = (if truthyOpt a then a else b)"

fun orDefault :: "string option \<Rightarrow> string \<Rightarrow> string" where
  "orDefault None d = d"
| "orDefault (Some s) d = (if truthy s then s else d)"

record registerBody =
  rb_hostId :: "string option"
  rb_computerName :: "string option"
  rb_sources :: "source list option"
  rb_publicIP :: "string option"
  rb_publicPort :: "int option"

record registered =
  g_hostId :: string
  g_publicIP :: "string option"

text \<open>
  \<open>POST /api/hosts/register\<close>. \<open>rb_sources\<close> is \<open>None\<close> when the body has no \<open>sources\<close> or it
  is not an array. \<open>genId\<close> is what \<open>generateHostId()\<close> returns when it is called (nanoid, 16
  symbols, not part of the sources); \<open>reqIP\<close> is the result of \<open>getClientIP(req)\<close>.
\<close>

definition registerHost ::
  "state \<Rightarrow> registerBody \<Rightarrow> string \<Rightarrow> string option \<Rightarrow> int \<Rightarrow> state \<times> registered reply" where
  "registerHost st b genId reqIP now =
     (case (rb_computerName b, rb_sources b) of
        (Some computerName, Some srcs) \<Rightarrow>
          if \<not> truthy computerName
          then (st, Fail 400 ''computerName and sources array required'')
          else
            (let ident = orDefault (rb_hostId b) genId;
                 detectedIP = orElse (rb_publicIP b) reqIP;
                 host = \<lparr>h_hostId = ident,
                         h_computerName = computerName,
                         h_sources = srcs,
                         h_publicIP = detectedIP,
                         h_publicPort = (case rb_publicPort b of
                                           None \<Rightarrow> 5961
                                         | Some p \<Rightarrow> if p = 0 then 5961 else p),
                         h_registeredAt = (case map_of (hosts st) ident of
                                             Some old \<Rightarrow> h_registeredAt old
                                           | None \<Rightarrow> now),
                         h_lastHeartbeat = now,
                         h_connectedClients = []\<rparr>
             in (st\<lparr>hosts := AList.update ident host (hosts st)\<rparr>,
                 Ok \<lparr>g_hostId = ident, g_publicIP = detectedIP\<rparr>))
      | _ \<Rightarrow> (st, Fail 400 ''computerName and sources array required''))"

record heartbeatBody =
  hb_publicIP :: "string option"
  hb_publicPort :: "int option"
  hb_sources :: "source list option"

record pendingClient =
  p_clientId :: string
  p_clientName :: string
  p_publicIP :: "string option"
  p_publicPort :: "int option"
  p_requestedSource :: string

definition pendingView :: "request \<Rightarrow> pendingClient" where
  "pendingView c = \<lparr>p_clientId = r_clientId c, p_clientName = r_clientName c,
                    p_publicIP = r_publicIP c, p_publicPort = r_publicPort c,
                    p_requestedSource = r_requestedSource c\<rparr>"

text \<open>\<open>POST /api/hosts/heartbeat/:hostId\<close>: refreshes the entry and returns the requests that
  are not acknowledged yet.\<close>

definition heartbeat ::
  "state \<Rightarrow> string \<Rightarrow> heartbeatBody \<Rightarrow> string option \<Rightarrow> int \<Rightarrow> state \<times> pendingClient list reply" where
  "heartbeat st hostId b reqIP now =
     (case map_of (hosts st) hostId of
        None \<Rightarrow> (st, Fail 404 ''Host not found. Please re-register.'')
      | Some host \<Rightarrow>
          (let h1 = host\<lparr>h_lastHeartbeat := now\<rparr>;
               detectedIP = orElse (hb_publicIP b) reqIP;
               h2 = (if truthyOpt detectedIP then h1\<lparr>h_publicIP := detectedIP\<rparr> else h1);
               h3 = (case hb_publicPort b of
                       None \<Rightarrow> h2
                     | Some p \<Rightarrow> if p = 0 then h2 else h2\<lparr>h_publicPort := p\<rparr>);
               h4 = (case hb_sources b of None \<Rightarrow> h3 | Some srcs \<Rightarrow> h3\<lparr>h_sources := srcs\<rparr>);
               pendingClients = filter (\<lambda>c. \<not> r_acknowledged c) (h_connectedClients h4)
           in (st\<lparr>hosts := AList.update hostId h4 (hosts st)\<rparr>,
               Ok (map pendingView pendingClients))))"

text \<open>\<open>DELETE /api/hosts/:hostId\<close> and the 15-second host sweep.\<close>

definition deleteHost :: "state \<Rightarrow> string \<Rightarrow> state" where
  "deleteHost st hostId = st\<lparr>hosts := AList.delete hostId (hosts st)\<rparr>"

definition sweepHosts :: "state \<Rightarrow> int \<Rightarrow> state" where
  "sweepHosts st now =
     st\<lparr>hosts := filter (\<lambda>kh. \<not> (now - h_lastHeartbeat (snd kh) > HOST_TIMEOUT_MS)) (hosts st)\<rparr>"

record listing =
  l_hostId :: string
  l_computerName :: string
  l_sources :: "string list"
  l_online :: bool
  l_lastSeen :: int

text \<open>\<open>GET /api/hosts\<close>: the loop over \<open>hosts.entries()\<close>, pushing an entry for every host
  with a recent heartbeat and at least one enabled source.\<close>

primrec availableHosts :: "(string \<times> host) list \<Rightarrow> int \<Rightarrow> listing list" where
  "availableHosts [] now = []"
| "availableHosts (kh # rest) now =
     (if now - h_lastHeartbeat (snd kh) < HOST_TIMEOUT_MS then
        (let enabledSources = filter enabled (h_sources (snd kh))
         in if length enabledSources > 0
            then [\<lparr>l_hostId = fst kh, l_computerName = h_computerName (snd kh),
                   l_sources = map name enabledSources, l_online = True,
                   l_lastSeen = h_lastHeartbeat (snd kh)\<rparr>]
            else [])
      else []) @ availableHosts rest now"

definition listAvailableHosts :: "state \<Rightarrow> int \<Rightarrow> listing list" where
  "listAvailableHosts st now = availableHosts (hosts st) now"

record connectBody =
  cb_clientId :: "string option"
  cb_clientName :: "string option"
  cb_sourceName :: "string option"
  cb_publicIP :: "string option"
  cb_publicPort :: "int option"

record connected =
  k_clientId :: string
  k_hostPublicIP :: "string option"
  k_hostPublicPort :: int

text \<open>\<open>POST /api/hosts/:hostId/connect\<close>: the host must exist and the named source must be
  one of its enabled sources; then a request is pushed on the host's list, with no look at
  what the list holds already.\<close>

definition connectionRequest :: "connectBody \<Rightarrow> string \<Rightarrow> (nat \<Rightarrow> nat) \<Rightarrow> int \<Rightarrow> request" where
  "connectionRequest b sourceName rnd now =
     \<lparr>r_clientId = orDefault (cb_clientId b) (generateCode rnd),
      r_clientName = orDefault (cb_clientName b) ''Unknown Client'',
      r_requestedSource = sourceName,
      r_publicIP = cb_publicIP b,
      r_publicPort = cb_publicPort b,
      r_requestedAt = now,
      r_acknowledged = False\<rparr>"

definition requestConnect ::
  "state \<Rightarrow> string \<Rightarrow> connectBody \<Rightarrow> (nat \<Rightarrow> nat) \<Rightarrow> int \<Rightarrow> state \<times> connected reply" where
  "requestConnect st hostId b rnd now =
     (case map_of (hosts st) hostId of
        None \<Rightarrow> (st, Fail 404 ''Host not found or offline'')
      | Some host \<Rightarrow>
          (case cb_sourceName b of
             None \<Rightarrow> (st, Fail 404 ''Source not found or not shared'')
           | Some sourceName \<Rightarrow>
               (case List.find (\<lambda>s. name s = sourceName \<and> enabled s) (h_sources host) of
                  None \<Rightarrow> (st, Fail 404 ''Source not found or not shared'')
                | Some src \<Rightarrow>
                    (st\<lparr>hosts := AList.update hostId
                           (host\<lparr>h_connectedClients :=
                              h_connectedClients host @ [connectionRequest b sourceName rnd now]\<rparr>)
                           (hosts st)\<rparr>,
                     Ok \<lparr>k_clientId = r_clientId (connectionRequest b sourceName rnd now),
                         k_hostPublicIP = h_publicIP host,
                         k_hostPublicPort = h_publicPort host\<rparr>))))"

text \<open>\<open>POST /api/hosts/:hostId/acknowledge/:clientId\<close>: the first request of that client id,
  if there is one, is marked.\<close>

fun ackFirst :: "string \<Rightarrow> request list \<Rightarrow> request list" where
  "ackFirst clientId [] = []"
| "ackFirst clientId (c # cs) =
     (if r_clientId c = clientId then c\<lparr>r_acknowledged := True\<rparr> # cs
      else c # ackFirst clientId cs)"

definition acknowledge :: "state \<Rightarrow> string \<Rightarrow> string \<Rightarrow> state \<times> unit reply" where
  "acknowledge st hostId clientId =
     (case map_of (hosts st) hostId of
        None \<Rightarrow> (st, Fail 404 ''Host not found'')
      | Some host \<Rightarrow>
          (case List.find (\<lambda>c. r_clientId c = clientId) (h_connectedClients host) of
             None \<Rightarrow> (st, Ok ())
           | Some client \<Rightarrow>
               (st\<lparr>hosts := AList.update hostId
                      (host\<lparr>h_connectedClients := ackFirst clientId (h_connectedClients host)\<rparr>)
                      (hosts st)\<rparr>,
                Ok ())))"

section \<open>Endpoint discovery\<close>





text \<open>The members of a session, \<open>[session.host, ...session.clients]\<close> without a \<open>null\<close> host,
  and \<open>allPeers\<close>, that list after \<open>.filter(Boolean)\<close>.\<close>

definition members :: "session \<Rightarrow> string list" where
  "members s = (case s_host s of None \<Rightarrow> [] | Some h \<Rightarrow> [h]) @ s_clients s"



section \<open>Reachable states\<close>

text \<open>
  The states the process can be in: it starts with three empty maps, and each handler runs to
  completion before the next event. One fact about a value made outside the sources is
  assumed: \<open>generateHostId()\<close> returns 16 symbols. The bodies, codes, ids and times of the
  requests are arbitrary, and so is the id of a new connection
  (\<open>Math.random().toString(36).substring(7)\<close>, which can be any string, the empty one too).
\<close>

inductive reachable :: "state \<Rightarrow> bool" where
  r_init: "reachable init"
| r_createSession: "reachable st \<Longrightarrow> reachable (fst (createSession st rnd b now))"
| r_sweepSessions: "reachable st \<Longrightarrow> reachable (sweepSessions st now)"
| r_hostEndpoint: "reachable st \<Longrightarrow> reachable (fst (hostEndpoint st code ep))"
| r_clientEndpoint: "reachable st \<Longrightarrow> reachable (fst (clientEndpoint st code ep))"
| r_connect: "reachable st \<Longrightarrow> reachable (connect st cid)"
| r_message: "reachable st \<Longrightarrow> reachable (fst (onMessage st cid d))"
| r_close: "reachable st \<Longrightarrow> reachable (fst (handleDisconnect st cid))"
| r_registerHost:
    "reachable st \<Longrightarrow> length genId = 16 \<Longrightarrow> reachable (fst (registerHost st rb genId reqIP now))"
| r_heartbeat: "reachable st \<Longrightarrow> reachable (fst (heartbeat st hostId hb reqIP now))"
| r_deleteHost: "reachable st \<Longrightarrow> reachable (deleteHost st hostId)"
| r_sweepHosts: "reachable st \<Longrightarrow> reachable (sweepHosts st now)"
| r_requestConnect: "reachable st \<Longrightarrow> reachable (fst (requestConnect st hostId cb rnd now))"
| r_acknowledge: "reachable st \<Longrightarrow> reachable (fst (acknowledge st hostId clientId))"

text \<open>What holds of every session of a reachable state, and of the state as a whole: codes have
  six symbols and are the keys of their sessions, the status is \<open>active\<close> exactly when a host
  is recorded, host ids are non-empty and occur once in the registry.\<close>

definition session_ok :: "string \<Rightarrow> session \<Rightarrow> bool" where
  "session_ok c s =
     (length c = 6 \<and> s_code s = c \<and> (s_status s = Active \<longleftrightarrow> s_host s \<noteq> None))"

definition state_ok :: "state \<Rightarrow> bool" where
  "state_ok st =
     ((\<forall>c s. sessions st c = Some s \<longrightarrow> session_ok c s)
      \<and> distinct (map fst (hosts st))
      \<and> (\<forall>k \<in> set (map fst (hosts st)). truthy k))"

section \<open>Example inputs\<close>

text \<open>A random source that always draws the byte 0, so that every generated code is
  \<open>AAAAAA\<close>, and two session-creation bodies.\<close>

definition zeros :: "nat \<Rightarrow> nat" where
  "zeros i = 0"

definition bodyA :: createBody where
  "bodyA = \<lparr>b_hostId = Some ''h1'', b_bridgeName = Some ''Studio A'', b_sources = Some [''Camera 1'']\<rparr>"

definition bodyB :: createBody where
  "bodyB = \<lparr>b_hostId = Some ''h2'', b_bridgeName = Some ''Studio B'', b_sources = None\<rparr>"

text \<open>The state after one session has been created at time 0.\<close>

definition oneSession :: state where
  "oneSession = fst (createSession init zeros bodyA 0)"

text \<open>Register messages for that session, for a session that does not exist, and a relayed
  offer without a target.\<close>

definition registerAs :: "string \<Rightarrow> string \<Rightarrow> signal" where
  "registerAs r c = \<lparr>m_type = ''register'', m_code = Some c, m_role = Some r,
                     m_targetId = None, m_payload = []\<rparr>"

definition offer :: signal where
  "offer = \<lparr>m_type = ''offer'', m_code = None, m_role = None, m_targetId = None,
            m_payload = ''sdp''\<rparr>"

text \<open>Connection \<open>c1\<close> registered as host of \<open>AAAAAA\<close>; then \<open>c2\<close> registered as its client,
  once and twice; and \<open>c1\<close> alone on an empty registry.\<close>

definition hostRegistered :: state where
  "hostRegistered = fst (onMessage (connect oneSession ''c1'') ''c1'' (registerAs ''host'' ''AAAAAA''))"

definition clientRegistered :: state where
  "clientRegistered =
     fst (onMessage (connect hostRegistered ''c2'') ''c2'' (registerAs ''client'' ''AAAAAA''))"

definition clientTwice :: state where
  "clientTwice = fst (onMessage clientRegistered ''c2'' (registerAs ''client'' ''AAAAAA''))"

text \<open>The host \<open>c1\<close> of \<open>AAAAAA\<close> after it has sent a second \<open>register\<close>, for a code that
  names no session.\<close>

definition hostMoved :: state where
  "hostMoved = fst (onMessage hostRegistered ''c1'' (registerAs ''host'' ''NOPE22''))"

text \<open>A second session, \<open>BBBBBB\<close> (the generator drawing the byte 1 every time), next to
  \<open>AAAAAA\<close>; \<open>c1\<close> registers as host of \<open>AAAAAA\<close>, \<open>c2\<close> as its client, and then \<open>c2\<close>
  registers again, as host of \<open>BBBBBB\<close>.\<close>

definition ones :: "nat \<Rightarrow> nat" where
  "ones i = 1"

definition twoSessions :: state where
  "twoSessions = fst (createSession oneSession ones bodyB 1)"

definition twoJoined :: state where
  "twoJoined =
     fst (onMessage
            (connect (fst (onMessage (connect twoSessions ''c1'') ''c1''
                             (registerAs ''host'' ''AAAAAA''))) ''c2'')
            ''c2'' (registerAs ''client'' ''AAAAAA''))"

definition clientMoved :: state where
  "clientMoved = fst (onMessage twoJoined ''c2'' (registerAs ''host'' ''BBBBBB''))"


definition loneConnection :: state where
  "loneConnection = connect init ''c1''"

text \<open>A host entry with one enabled and one disabled source, registered at time 1000 and
  written out as \<open>studioHost\<close>; connection requests for the enabled and for the disabled
  source, and the pending request that the first leaves at time 2000, written out as
  \<open>cameraRequest\<close>; a heartbeat body with no fields; and a stun request of peer \<open>c2\<close>.\<close>

definition camBody :: registerBody where
  "camBody = \<lparr>rb_hostId = Some ''studio'', rb_computerName = Some ''Mac'',
              rb_sources = Some [\<lparr>name = ''Camera 1'', enabled = True\<rparr>,
                                 \<lparr>name = ''Screen'', enabled = False\<rparr>],
              rb_publicIP = None, rb_publicPort = None\<rparr>"

definition studioHost :: host where
  "studioHost = \<lparr>h_hostId = ''studio'', h_computerName = ''Mac'',
                  h_sources = [\<lparr>name = ''Camera 1'', enabled = True\<rparr>,
                               \<lparr>name = ''Screen'', enabled = False\<rparr>],
                  h_publicIP = Some ''198.51.100.7'', h_publicPort = 5961, h_registeredAt = 1000,
                  h_lastHeartbeat = 1000, h_connectedClients = []\<rparr>"

definition hostListed :: state where
  "hostListed = fst (registerHost init camBody ''abcdefghijklmnop'' (Some ''198.51.100.7'') 1000)"

definition askCamera :: connectBody where
  "askCamera = \<lparr>cb_clientId = Some ''viewer'', cb_clientName = None,
                cb_sourceName = Some ''Camera 1'', cb_publicIP = None, cb_publicPort = None\<rparr>"

definition cameraRequest :: request where
  "cameraRequest = \<lparr>r_clientId = ''viewer'', r_clientName = ''Unknown Client'',
                     r_requestedSource = ''Camera 1'', r_publicIP = None, r_publicPort = None,
                     r_requestedAt = 2000, r_acknowledged = False\<rparr>"

definition askScreen :: connectBody where
  "askScreen = \<lparr>cb_clientId = Some ''viewer'', cb_clientName = None,
                cb_sourceName = Some ''Screen'', cb_publicIP = None, cb_publicPort = None\<rparr>"

definition hostAsked :: state where
  "hostAsked = fst (requestConnect hostListed ''studio'' askCamera zeros 2000)"

definition noBeat :: heartbeatBody where
  "noBeat = \<lparr>hb_publicIP = None, hb_publicPort = None, hb_sources = None\<rparr>"




section \<open>Generated codes\<close>

lemma gen_zeros: "generateCode zeros = ''AAAAAA''"
  by (simp add: generateCode_def zeros_def alphabet_def upt_rec)

lemma length_generateCode: "length (generateCode rnd) = 6"
  by (simp add: generateCode_def)

lemma length_alphabet: "length alphabet = 32"
  by (simp add: alphabet_def)

lemma set_generateCode: "set (generateCode rnd) \<subseteq> set alphabet"
proof -
  have "alphabet ! (rnd i mod 32) \<in> set alphabet" for i
    by (rule nth_mem) (simp add: length_alphabet)
  then show ?thesis
    by (auto simp: generateCode_def)
qed

section \<open>Invariants of the reachable states\<close>

lemma ok_init: "state_ok init"
  by (simp add: state_ok_def init_def)

lemma ok_createSession: "state_ok st \<Longrightarrow> state_ok (fst (createSession st rnd b now))"
  by (auto simp: state_ok_def createSession_def Let_def session_ok_def length_generateCode)

lemma ok_sweepSessions: "state_ok st \<Longrightarrow> state_ok (sweepSessions st now)"
  by (auto simp: state_ok_def sweepSessions_def split: option.splits if_splits)

lemma ok_hostEndpoint: "state_ok st \<Longrightarrow> state_ok (fst (hostEndpoint st code ep))"
  by (auto simp: state_ok_def hostEndpoint_def session_ok_def split: option.splits if_splits)

lemma ok_clientEndpoint: "state_ok st \<Longrightarrow> state_ok (fst (clientEndpoint st code ep))"
  by (auto simp: state_ok_def clientEndpoint_def Let_def session_ok_def split: option.splits if_splits)

lemma ok_connect: "state_ok st \<Longrightarrow> state_ok (connect st cid)"
  by (auto simp: state_ok_def connect_def)

lemma state_ok_sessionsD: "state_ok st \<Longrightarrow> sessions st c = Some s \<Longrightarrow> session_ok c s"
  by (simp add: state_ok_def)

lemma state_ok_upd:
  assumes "state_ok st" and "session_ok code s'"
    and "sessions st' = (sessions st)(code \<mapsto> s')" and "hosts st' = hosts st"
  shows "state_ok st'"
  using assms by (simp add: state_ok_def)

lemma state_ok_same:
  assumes "state_ok st" and "sessions st' = sessions st" and "hosts st' = hosts st"
  shows "state_ok st'"
  using assms by (simp add: state_ok_def)

lemma register_cases:
  assumes "register st cid d = Inr (st', out)"
  obtains conn where "connections st cid = Some conn"
    and "connections st' = (connections st)(cid \<mapsto> conn\<lparr>c_role := m_role d, c_sessionCode := m_code d\<rparr>)"
    and "hosts st' = hosts st"
    and "sessions st' = sessions st
         \<or> (\<exists>code s. m_code d = Some code \<and> sessions st code = Some s \<and> m_role d = Some ''host''
              \<and> sessions st' = (sessions st)(code \<mapsto> s\<lparr>s_host := Some cid, s_status := Active\<rparr>))
         \<or> (\<exists>code s. m_code d = Some code \<and> sessions st code = Some s \<and> m_role d = Some ''client''
              \<and> sessions st' = (sessions st)(code \<mapsto> s\<lparr>s_clients := s_clients s @ [cid]\<rparr>))"
  using assms
  by (auto simp: register_def Let_def split: option.splits if_splits)

lemma ok_register:
  assumes ok: "state_ok st" and r: "register st cid d = Inr (st', out)"
  shows "state_ok st'"
proof -
  from r obtain conn where h: "hosts st' = hosts st"
    and s: "sessions st' = sessions st
         \<or> (\<exists>code s. m_code d = Some code \<and> sessions st code = Some s \<and> m_role d = Some ''host''
              \<and> sessions st' = (sessions st)(code \<mapsto> s\<lparr>s_host := Some cid, s_status := Active\<rparr>))
         \<or> (\<exists>code s. m_code d = Some code \<and> sessions st code = Some s \<and> m_role d = Some ''client''
              \<and> sessions st' = (sessions st)(code \<mapsto> s\<lparr>s_clients := s_clients s @ [cid]\<rparr>))"
    by (rule register_cases)
  from s show ?thesis
  proof (elim disjE exE conjE)
    assume "sessions st' = sessions st"
    with ok show ?thesis using h by (rule state_ok_same)
  next
    fix code s
    assume a: "sessions st code = Some s"
      and b: "sessions st' = (sessions st)(code \<mapsto> s\<lparr>s_host := Some cid, s_status := Active\<rparr>)"
    from ok a have "session_ok code s" by (rule state_ok_sessionsD)
    then have "session_ok code (s\<lparr>s_host := Some cid, s_status := Active\<rparr>)"
      by (simp add: session_ok_def)
    with ok show ?thesis using b h by (rule state_ok_upd)
  next
    fix code s
    assume a: "sessions st code = Some s"
      and b: "sessions st' = (sessions st)(code \<mapsto> s\<lparr>s_clients := s_clients s @ [cid]\<rparr>)"
    from ok a have "session_ok code s" by (rule state_ok_sessionsD)
    then have "session_ok code (s\<lparr>s_clients := s_clients s @ [cid]\<rparr>)"
      by (simp add: session_ok_def)
    with ok show ?thesis using b h by (rule state_ok_upd)
  qed
qed

lemma ok_onMessage: "state_ok st \<Longrightarrow> state_ok (fst (onMessage st cid d))"
  by (auto simp: onMessage_def handleSignal_def split: sum.splits dest: ok_register)

lemma leaveSession_cases:
  "sessions (fst (leaveSession st cid)) = sessions st
   \<or> (\<exists>code s. sessions st code = Some s
         \<and> sessions (fst (leaveSession st cid)) = (sessions st)(code \<mapsto> s\<lparr>s_host := None, s_status := Waiting\<rparr>))
   \<or> (\<exists>code s. sessions st code = Some s
         \<and> sessions (fst (leaveSession st cid)) =
             (sessions st)(code \<mapsto> s\<lparr>s_clients := filter (\<lambda>i. i \<noteq> cid) (s_clients s)\<rparr>))"
  by (auto simp: leaveSession_def split: option.splits)

lemma leaveSession_connections: "connections (fst (leaveSession st cid)) = connections st"
  by (auto simp: leaveSession_def split: option.splits)

lemma leaveSession_hosts: "hosts (fst (leaveSession st cid)) = hosts st"
  by (auto simp: leaveSession_def split: option.splits)

lemma ok_leaveSession:
  assumes ok: "state_ok st"
  shows "state_ok (fst (leaveSession st cid))"
proof -
  let ?st' = "fst (leaveSession st cid)"
  note h = leaveSession_hosts [of st cid]
  from leaveSession_cases [of st cid] show ?thesis
  proof (elim disjE exE conjE)
    assume "sessions ?st' = sessions st"
    with ok show ?thesis using h by (rule state_ok_same)
  next
    fix code s
    assume a: "sessions st code = Some s"
      and b: "sessions ?st' = (sessions st)(code \<mapsto> s\<lparr>s_host := None, s_status := Waiting\<rparr>)"
    from ok a have "session_ok code s" by (rule state_ok_sessionsD)
    then have "session_ok code (s\<lparr>s_host := None, s_status := Waiting\<rparr>)"
      by (simp add: session_ok_def)
    with ok show ?thesis using b h by (rule state_ok_upd)
  next
    fix code s
    assume a: "sessions st code = Some s"
      and b: "sessions ?st' = (sessions st)(code \<mapsto> s\<lparr>s_clients := filter (\<lambda>i. i \<noteq> cid) (s_clients s)\<rparr>)"
    from ok a have "session_ok code s" by (rule state_ok_sessionsD)
    then have "session_ok code (s\<lparr>s_clients := filter (\<lambda>i. i \<noteq> cid) (s_clients s)\<rparr>)"
      by (simp add: session_ok_def)
    with ok show ?thesis using b h by (rule state_ok_upd)
  qed
qed

lemma ok_handleDisconnect: "state_ok st \<Longrightarrow> state_ok (fst (handleDisconnect st cid))"
  using ok_leaveSession [of st cid]
  by (simp add: handleDisconnect_def Let_def state_ok_def)

lemma truthy16: "length k = 16 \<Longrightarrow> truthy k"
  by (auto simp: truthy_def)

lemma truthy_orDefault: "truthy d \<Longrightarrow> truthy (orDefault a d)"
  by (cases a) auto

lemma ok_hosts_update:
  "state_ok st \<Longrightarrow> truthy k \<Longrightarrow> state_ok (st\<lparr>hosts := AList.update k h (hosts st)\<rparr>)"
  by (auto simp: state_ok_def distinct_update dom_update)

lemma map_of_truthy: "state_ok st \<Longrightarrow> map_of (hosts st) k = Some h \<Longrightarrow> truthy k"
  by (auto simp: state_ok_def dest!: map_of_SomeD)

lemma ok_registerHost:
  "state_ok st \<Longrightarrow> length genId = 16 \<Longrightarrow> state_ok (fst (registerHost st rb genId reqIP now))"
  by (auto simp: registerHost_def Let_def truthy16 truthy_orDefault ok_hosts_update
      split: option.splits)

lemma ok_heartbeat: "state_ok st \<Longrightarrow> state_ok (fst (heartbeat st hostId hb reqIP now))"
  by (auto simp: heartbeat_def Let_def ok_hosts_update map_of_truthy split: option.splits)

lemma ok_deleteHost: "state_ok st \<Longrightarrow> state_ok (deleteHost st hostId)"
proof -
  assume ok: "state_ok st"
  have "set (AList.delete hostId (hosts st)) \<subseteq> set (hosts st)"
    by (auto simp: AList.delete_eq)
  with ok show ?thesis
    by (auto simp: state_ok_def deleteHost_def distinct_delete)
qed

lemma ok_sweepHosts: "state_ok st \<Longrightarrow> state_ok (sweepHosts st now)"
  by (auto simp: state_ok_def sweepHosts_def distinct_map_filter)

lemma ok_requestConnect: "state_ok st \<Longrightarrow> state_ok (fst (requestConnect st hostId cb rnd now))"
  by (auto simp: requestConnect_def Let_def ok_hosts_update map_of_truthy split: option.splits)

lemma ok_acknowledge: "state_ok st \<Longrightarrow> state_ok (fst (acknowledge st hostId clientId))"
  by (auto simp: acknowledge_def ok_hosts_update map_of_truthy split: option.splits)

lemma reachable_ok: "reachable st \<Longrightarrow> state_ok st"
  by (induction rule: reachable.induct)
    (simp_all add: ok_init ok_createSession ok_sweepSessions ok_hostEndpoint ok_clientEndpoint
      ok_connect ok_onMessage ok_handleDisconnect ok_registerHost ok_heartbeat ok_deleteHost
      ok_sweepHosts ok_requestConnect ok_acknowledge)


section \<open>The example states\<close>

lemma oneSession_eq:
  "oneSession = \<lparr>sessions = [''AAAAAA'' \<mapsto>
       \<lparr>s_code = ''AAAAAA'', s_hostId = Some ''h1'', s_bridgeName = Some ''Studio A'',
        s_sources = [''Camera 1''], s_host = None, s_clients = [], s_createdAt = 0,
        s_status = Waiting, s_hostEndpoint = None, s_clientEndpoints = None\<rparr>],
     connections = Map.empty, hosts = []\<rparr>"
  by (simp add: oneSession_def createSession_def Let_def gen_zeros bodyA_def init_def)

lemma hostRegistered_eq:
  "hostRegistered = \<lparr>sessions = [''AAAAAA'' \<mapsto>
       \<lparr>s_code = ''AAAAAA'', s_hostId = Some ''h1'', s_bridgeName = Some ''Studio A'',
        s_sources = [''Camera 1''], s_host = Some ''c1'', s_clients = [], s_createdAt = 0,
        s_status = Active, s_hostEndpoint = None, s_clientEndpoints = None\<rparr>],
     connections = [''c1'' \<mapsto> \<lparr>c_role = Some ''host'', c_sessionCode = Some ''AAAAAA''\<rparr>],
     hosts = []\<rparr>"
  by (simp add: hostRegistered_def oneSession_eq onMessage_def handleSignal_def register_def
      connect_def registerAs_def Let_def)

lemma reachable_oneSession: "reachable oneSession"
  unfolding oneSession_def by (intro reachable.intros)

lemma reachable_hostRegistered: "reachable hostRegistered"
  unfolding hostRegistered_def
  by (intro r_message r_connect reachable_oneSession)


lemma clientRegistered_eq:
  "clientRegistered = \<lparr>sessions = [''AAAAAA'' \<mapsto>
       \<lparr>s_code = ''AAAAAA'', s_hostId = Some ''h1'', s_bridgeName = Some ''Studio A'',
        s_sources = [''Camera 1''], s_host = Some ''c1'', s_clients = [''c2''], s_createdAt = 0,
        s_status = Active, s_hostEndpoint = None, s_clientEndpoints = None\<rparr>],
     connections = [''c1'' \<mapsto> \<lparr>c_role = Some ''host'', c_sessionCode = Some ''AAAAAA''\<rparr>,
                    ''c2'' \<mapsto> \<lparr>c_role = Some ''client'', c_sessionCode = Some ''AAAAAA''\<rparr>],
     hosts = []\<rparr>"
  by (simp add: clientRegistered_def hostRegistered_eq onMessage_def handleSignal_def register_def
      connect_def registerAs_def Let_def)

lemma clientTwice_eq:
  "clientTwice = \<lparr>sessions = [''AAAAAA'' \<mapsto>
       \<lparr>s_code = ''AAAAAA'', s_hostId = Some ''h1'', s_bridgeName = Some ''Studio A'',
        s_sources = [''Camera 1''], s_host = Some ''c1'', s_clients = [''c2'', ''c2''], s_createdAt = 0,
        s_status = Active, s_hostEndpoint = None, s_clientEndpoints = None\<rparr>],
     connections = [''c1'' \<mapsto> \<lparr>c_role = Some ''host'', c_sessionCode = Some ''AAAAAA''\<rparr>,
                    ''c2'' \<mapsto> \<lparr>c_role = Some ''client'', c_sessionCode = Some ''AAAAAA''\<rparr>],
     hosts = []\<rparr>"
  by (simp add: clientTwice_def clientRegistered_eq onMessage_def handleSignal_def register_def
      registerAs_def Let_def)

lemma reachable_clientRegistered: "reachable clientRegistered"
  unfolding clientRegistered_def
  by (intro r_message r_connect reachable_hostRegistered)

lemma reachable_clientTwice: "reachable clientTwice"
  unfolding clientTwice_def by (intro r_message reachable_clientRegistered)

lemma gen_ones: "generateCode ones = ''BBBBBB''"
  by (simp add: generateCode_def ones_def alphabet_def upt_rec)

lemma twoSessions_eq:
  "twoSessions = oneSession\<lparr>sessions := (sessions oneSession)(''BBBBBB'' \<mapsto>
       \<lparr>s_code = ''BBBBBB'', s_hostId = Some ''h2'', s_bridgeName = Some ''Studio B'',
        s_sources = [], s_host = None, s_clients = [], s_createdAt = 1,
        s_status = Waiting, s_hostEndpoint = None, s_clientEndpoints = None\<rparr>)\<rparr>"
  by (simp add: twoSessions_def createSession_def Let_def gen_ones bodyB_def)

lemma twoJoined_eq:
  "twoJoined = \<lparr>sessions = [''AAAAAA'' \<mapsto>
       \<lparr>s_code = ''AAAAAA'', s_hostId = Some ''h1'', s_bridgeName = Some ''Studio A'',
        s_sources = [''Camera 1''], s_host = Some ''c1'', s_clients = [''c2''], s_createdAt = 0,
        s_status = Active, s_hostEndpoint = None, s_clientEndpoints = None\<rparr>,
      ''BBBBBB'' \<mapsto>
       \<lparr>s_code = ''BBBBBB'', s_hostId = Some ''h2'', s_bridgeName = Some ''Studio B'',
        s_sources = [], s_host = None, s_clients = [], s_createdAt = 1,
        s_status = Waiting, s_hostEndpoint = None, s_clientEndpoints = None\<rparr>],
     connections = [''c1'' \<mapsto> \<lparr>c_role = Some ''host'', c_sessionCode = Some ''AAAAAA''\<rparr>,
                    ''c2'' \<mapsto> \<lparr>c_role = Some ''client'', c_sessionCode = Some ''AAAAAA''\<rparr>],
     hosts = []\<rparr>"
  by (simp add: twoJoined_def twoSessions_eq oneSession_eq onMessage_def handleSignal_def
      register_def connect_def registerAs_def Let_def fun_upd_twist)

lemma clientMoved_eq:
  "clientMoved = \<lparr>sessions = [''AAAAAA'' \<mapsto>
       \<lparr>s_code = ''AAAAAA'', s_hostId = Some ''h1'', s_bridgeName = Some ''Studio A'',
        s_sources = [''Camera 1''], s_host = Some ''c1'', s_clients = [''c2''], s_createdAt = 0,
        s_status = Active, s_hostEndpoint = None, s_clientEndpoints = None\<rparr>,
      ''BBBBBB'' \<mapsto>
       \<lparr>s_code = ''BBBBBB'', s_hostId = Some ''h2'', s_bridgeName = Some ''Studio B'',
        s_sources = [], s_host = Some ''c2'', s_clients = [], s_createdAt = 1,
        s_status = Active, s_hostEndpoint = None, s_clientEndpoints = None\<rparr>],
     connections = [''c1'' \<mapsto> \<lparr>c_role = Some ''host'', c_sessionCode = Some ''AAAAAA''\<rparr>,
                    ''c2'' \<mapsto> \<lparr>c_role = Some ''host'', c_sessionCode = Some ''BBBBBB''\<rparr>],
     hosts = []\<rparr>"
  by (simp add: clientMoved_def twoJoined_eq onMessage_def handleSignal_def register_def
      registerAs_def Let_def)

lemma reachable_clientMoved: "reachable clientMoved"
  unfolding clientMoved_def twoJoined_def twoSessions_def
  by (intro r_message r_connect r_createSession reachable_oneSession)



lemma hostListed_eq:
  "hostListed = \<lparr>sessions = Map.empty, connections = Map.empty, hosts = [(''studio'', studioHost)]\<rparr>"
  by (simp add: hostListed_def registerHost_def camBody_def init_def Let_def truthy_def
      orElse_def studioHost_def)

lemma reachable_hostListed: "reachable hostListed"
  unfolding hostListed_def by (intro r_registerHost r_init) simp

lemma hostAsked_eq:
  "hostAsked = \<lparr>sessions = Map.empty, connections = Map.empty,
     hosts = [(''studio'', studioHost\<lparr>h_connectedClients :=
                 [connectionRequest askCamera ''Camera 1'' zeros 2000]\<rparr>)]\<rparr>"
  by (simp add: hostAsked_def hostListed_eq requestConnect_def askCamera_def studioHost_def)

lemma reachable_hostAsked: "reachable hostAsked"
  unfolding hostAsked_def by (intro r_requestConnect reachable_hostListed)

section \<open>Creating a session\<close>

text \<open>
  C1, as amended. The code returned by \<open>createSession\<close> is the generator's output, six
  symbols of the 32-symbol alphabet. It is not compared with the registry: the new session
  (waiting, no host, no clients) is stored under it with \<open>sessions.set\<close>, whether or not a
  live session holds that code, and every other entry of the registry is left as it was.
  The registry is keyed by code, so at a reachable state it still holds no two sessions with
  one code: each session's code is its key.
\<close>

theorem createSession_stores_generated_code:
  "length (snd (createSession st rnd b now)) = 6
   \<and> set (snd (createSession st rnd b now)) \<subseteq> set alphabet
   \<and> snd (createSession st rnd b now) = generateCode rnd
   \<and> sessions (fst (createSession st rnd b now)) =
       (sessions st)(generateCode rnd \<mapsto>
          \<lparr>s_code = generateCode rnd, s_hostId = b_hostId b, s_bridgeName = b_bridgeName b,
           s_sources = (case b_sources b of None \<Rightarrow> [] | Some xs \<Rightarrow> xs),
           s_host = None, s_clients = [], s_createdAt = now, s_status = Waiting,
           s_hostEndpoint = None, s_clientEndpoints = None\<rparr>)
   \<and> (reachable st \<longrightarrow>
        (\<forall>c s. sessions (fst (createSession st rnd b now)) c = Some s \<longrightarrow> s_code s = c))"
proof -
  have "s_code s = c"
    if "reachable st" and "sessions (fst (createSession st rnd b now)) c = Some s" for c s
  proof -
    from that(1) have "reachable (fst (createSession st rnd b now))"
      by (rule r_createSession)
    then have "state_ok (fst (createSession st rnd b now))"
      by (rule reachable_ok)
    then have "session_ok c s"
      using that(2) by (rule state_ok_sessionsD)
    then show ?thesis
      by (simp add: session_ok_def)
  qed
  with set_generateCode [of rnd] show ?thesis
    by (simp add: createSession_def Let_def length_generateCode)
qed

text \<open>The theorem at the first session created on the empty registry.\<close>

theorem createSession_stores_generated_code_witness:
  "reachable init
   \<and> snd (createSession init zeros bodyA 0) = ''AAAAAA''
   \<and> s_code (the (sessions (fst (createSession init zeros bodyA 0)) ''AAAAAA'')) = ''AAAAAA''"
proof -
  have s: "sessions (fst (createSession init zeros bodyA 0)) ''AAAAAA''
      = Some (the (sessions (fst (createSession init zeros bodyA 0)) ''AAAAAA''))"
    by (simp add: createSession_def Let_def gen_zeros)
  from createSession_stores_generated_code [of init zeros bodyA 0] r_init s
  show ?thesis
    by (simp add: gen_zeros r_init)
qed

text \<open>
  C1 as stated fails: with a live session \<open>AAAAAA\<close> of host \<open>h1\<close> in the registry, a second
  call whose generator draws the same bytes returns \<open>AAAAAA\<close> again (nothing is regenerated),
  and the entry of \<open>h1\<close> is replaced by the session of \<open>h2\<close>.
\<close>

theorem createSession_collision:
  "snd (createSession init zeros bodyA 0) = ''AAAAAA''
   \<and> s_hostId (the (sessions oneSession ''AAAAAA'')) = Some ''h1''
   \<and> snd (createSession oneSession zeros bodyB 1) = ''AAAAAA''
   \<and> s_hostId (the (sessions (fst (createSession oneSession zeros bodyB 1)) ''AAAAAA'')) = Some ''h2''"
  by (simp add: oneSession_def createSession_def Let_def gen_zeros bodyA_def bodyB_def init_def)

section \<open>Session status and host reference\<close>

text \<open>
  In every reachable state, a session's status is \<open>active\<close> if and only if its host
  reference is present (not \<open>null\<close>): the two fields are written together at creation, at a
  host's \<open>register\<close> and at a host's disconnect. And when a connection whose own role is
  \<open>host\<close> and whose own session code names the session disconnects, the session is left
  with status \<open>waiting\<close> and no host reference.
\<close>

lemma status_host_invariant:
  assumes "reachable st" and "sessions st code = Some s"
  shows "(s_status s = Active \<longleftrightarrow> s_host s \<noteq> None)
    \<and> (connections st cid = Some conn \<and> c_role conn = Some ''host''
         \<and> c_sessionCode conn = Some code
       \<longrightarrow> sessions (fst (handleDisconnect st cid)) code
             = Some (s\<lparr>s_host := None, s_status := Waiting\<rparr>))"
proof -
  from assms have ok: "session_ok code s"
    by (auto dest: reachable_ok state_ok_sessionsD)
  then have "truthy code"
    by (auto simp: session_ok_def truthy_def)
  with assms(2) ok show ?thesis
    by (auto simp: session_ok_def handleDisconnect_def leaveSession_def Let_def)
qed

text \<open>The lemma at the state where \<open>c1\<close> is the registered host of \<open>AAAAAA\<close>.\<close>

lemma status_host_invariant_example:
  "reachable hostRegistered
   \<and> s_status (the (sessions hostRegistered ''AAAAAA'')) = Active
   \<and> s_host (the (sessions hostRegistered ''AAAAAA'')) = Some ''c1''
   \<and> s_status (the (sessions (fst (handleDisconnect hostRegistered ''c1'')) ''AAAAAA'')) = Waiting
   \<and> s_host (the (sessions (fst (handleDisconnect hostRegistered ''c1'')) ''AAAAAA'')) = None"
proof -
  have s: "sessions hostRegistered ''AAAAAA'' = Some
       \<lparr>s_code = ''AAAAAA'', s_hostId = Some ''h1'', s_bridgeName = Some ''Studio A'',
        s_sources = [''Camera 1''], s_host = Some ''c1'', s_clients = [], s_createdAt = 0,
        s_status = Active, s_hostEndpoint = None, s_clientEndpoints = None\<rparr>"
    by (simp add: hostRegistered_eq)
  have c: "connections hostRegistered ''c1'' = Some \<lparr>c_role = Some ''host'', c_sessionCode = Some ''AAAAAA''\<rparr>"
    by (simp add: hostRegistered_eq)
  from status_host_invariant [OF reachable_hostRegistered s, of "''c1''" "\<lparr>c_role = Some ''host'', c_sessionCode = Some ''AAAAAA''\<rparr>"] c s
  show ?thesis
    by (simp add: reachable_hostRegistered)
qed


text \<open>
  C2. The claim is that a session is \<open>active\<close> exactly when its host reference is present,
  and that after the registered host's connection disconnects the session is \<open>waiting\<close> with
  the host reference cleared. The equivalence holds, as shown above. The disconnect part does
  not hold for every host: \<open>handleDisconnect\<close> finds the session through the role and the
  session code the connection holds when it closes. Here \<open>c1\<close>, the registered host of
  \<open>AAAAAA\<close>, has sent a second \<open>register\<close> (for the unknown code \<open>NOPE22\<close>) before it closes:
  the state after the close is reachable, the connection is gone, and \<open>AAAAAA\<close> still has
  \<open>c1\<close> as its host reference and status \<open>active\<close>.
\<close>

theorem host_disconnect_after_second_register:
  "reachable (fst (handleDisconnect hostMoved ''c1''))
   \<and> connections (fst (handleDisconnect hostMoved ''c1'')) ''c1'' = None
   \<and> s_host (the (sessions (fst (handleDisconnect hostMoved ''c1'')) ''AAAAAA'')) = Some ''c1''
   \<and> s_status (the (sessions (fst (handleDisconnect hostMoved ''c1'')) ''AAAAAA'')) = Active"
proof -
  have "reachable hostMoved"
    unfolding hostMoved_def by (intro r_message reachable_hostRegistered)
  then have r: "reachable (fst (handleDisconnect hostMoved ''c1''))"
    by (rule r_close)
  have m: "hostMoved = hostRegistered\<lparr>connections :=
      [''c1'' \<mapsto> \<lparr>c_role = Some ''host'', c_sessionCode = Some ''NOPE22''\<rparr>]\<rparr>"
    by (simp add: hostMoved_def hostRegistered_eq onMessage_def handleSignal_def register_def
        registerAs_def Let_def)
  have "connections (fst (handleDisconnect hostMoved ''c1'')) ''c1'' = None
     \<and> s_host (the (sessions (fst (handleDisconnect hostMoved ''c1'')) ''AAAAAA'')) = Some ''c1''
     \<and> s_status (the (sessions (fst (handleDisconnect hostMoved ''c1'')) ''AAAAAA'')) = Active"
    by (simp add: m hostRegistered_eq handleDisconnect_def leaveSession_def Let_def truthy_def)
  with r show ?thesis
    by (rule conjI)
qed

section \<open>Broadcast of relayed messages\<close>

lemma forwardEach_eq:
  "forwardEach conns fromId ids m =
     map (\<lambda>i. (i, m)) (filter (\<lambda>i. conns i \<noteq> None \<and> i \<noteq> fromId) ids)"
  by (induction ids) simp_all

lemma relayed_not_register: "relayed t \<Longrightarrow> t \<noteq> ''register''"
  by (auto simp: relayed_def)

lemma onMessage_relayed:
  "relayed (m_type d) \<Longrightarrow> onMessage st fromId d = (st, forwardSignal st fromId d)"
  by (simp add: onMessage_def handleSignal_def relayed_not_register)

lemma forwardSignal_broadcast:
  assumes "connections st fromId = Some fc"
    and "getSession st (c_sessionCode fc) = Some s"
    and "\<not> truthyOpt (m_targetId d)"
  shows "forwardSignal st fromId d =
           forwardEach (connections st) fromId (broadcastPeers fc s) (MForward d fromId)"
  using assms by (cases "m_targetId d") (simp_all add: forwardSignal_def)

text \<open>
  What \<open>forwardSignal\<close> does with a relayed message (offer, answer, ice-candidate,
  connection_info or udp_endpoint) that has no usable \<open>targetId\<close>, sent by a connection whose
  session code names a session. If the sender's role is \<open>host\<close>, the message goes to exactly
  the entries of that session's client list that have a live connection, the sender left out.
  If its role is \<open>client\<close>, it goes to nobody but the connection the session records as its
  host. The receivers are taken from the session's lists, the sender is not among them, what
  they receive is the message with \<open>fromId\<close> set to the sender, and the state is unchanged.
\<close>

lemma broadcast_receivers:
  assumes "connections st fromId = Some fc"
    and "getSession st (c_sessionCode fc) = Some s"
    and "relayed (m_type d)"
    and "\<not> truthyOpt (m_targetId d)"
  shows "(c_role fc = Some ''host'' \<longrightarrow>
            map fst (snd (onMessage st fromId d)) =
              filter (\<lambda>i. connections st i \<noteq> None \<and> i \<noteq> fromId) (s_clients s))
       \<and> (c_role fc = Some ''client'' \<longrightarrow>
            set (map fst (snd (onMessage st fromId d))) \<subseteq> set_option (s_host s) - {fromId}
            \<and> (\<forall>h. s_host s = Some h \<and> connections st h \<noteq> None \<and> h \<noteq> fromId \<longrightarrow>
                  map fst (snd (onMessage st fromId d)) = [h]))
       \<and> set (map fst (snd (onMessage st fromId d))) \<subseteq> set (members s)
       \<and> fromId \<notin> set (map fst (snd (onMessage st fromId d)))
       \<and> set (map snd (snd (onMessage st fromId d))) \<subseteq> {MForward d fromId}
       \<and> fst (onMessage st fromId d) = st"
proof -
  have out: "snd (onMessage st fromId d) =
      map (\<lambda>i. (i, MForward d fromId))
        (filter (\<lambda>i. connections st i \<noteq> None \<and> i \<noteq> fromId) (broadcastPeers fc s))"
    using assms by (simp add: onMessage_relayed forwardSignal_broadcast forwardEach_eq)
  have fsts: "map fst (snd (onMessage st fromId d)) =
      filter (\<lambda>i. connections st i \<noteq> None \<and> i \<noteq> fromId) (broadcastPeers fc s)"
    unfolding out by (simp add: comp_def)
  have host: "c_role fc = Some ''host'' \<Longrightarrow> broadcastPeers fc s = s_clients s"
    by (simp add: broadcastPeers_def)
  have client: "c_role fc = Some ''client'' \<Longrightarrow>
      broadcastPeers fc s = (case s_host s of None \<Rightarrow> [] | Some h \<Rightarrow> [h])"
    by (simp add: broadcastPeers_def)
  have "fst (onMessage st fromId d) = st"
    using assms(3) by (simp add: onMessage_relayed)
  moreover have "set (map snd (snd (onMessage st fromId d))) \<subseteq> {MForward d fromId}"
    unfolding out by auto
  moreover have "fromId \<notin> set (map fst (snd (onMessage st fromId d)))"
    unfolding fsts by simp
  moreover have "set (map fst (snd (onMessage st fromId d))) \<subseteq> set (members s)"
    unfolding fsts by (auto simp: broadcastPeers_def members_def split: if_splits option.splits)
  moreover have "c_role fc = Some ''host'' \<longrightarrow>
            map fst (snd (onMessage st fromId d)) =
              filter (\<lambda>i. connections st i \<noteq> None \<and> i \<noteq> fromId) (s_clients s)"
    unfolding fsts using host by simp
  moreover have "c_role fc = Some ''client'' \<longrightarrow>
            set (map fst (snd (onMessage st fromId d))) \<subseteq> set_option (s_host s) - {fromId}
            \<and> (\<forall>h. s_host s = Some h \<and> connections st h \<noteq> None \<and> h \<noteq> fromId \<longrightarrow>
                  map fst (snd (onMessage st fromId d)) = [h])"
    unfolding fsts using client by (auto split: option.splits)
  ultimately show ?thesis by blast
qed

text \<open>The lemma for the host \<open>c1\<close> of session \<open>AAAAAA\<close>, whose only client is \<open>c2\<close>.\<close>

lemma broadcast_receivers_example:
  "map fst (snd (onMessage clientRegistered ''c1'' offer)) = [''c2'']
   \<and> fst (onMessage clientRegistered ''c1'' offer) = clientRegistered"
proof -
  let ?fc = "\<lparr>c_role = Some ''host'', c_sessionCode = Some ''AAAAAA''\<rparr>"
  let ?s = "\<lparr>s_code = ''AAAAAA'', s_hostId = Some ''h1'', s_bridgeName = Some ''Studio A'',
        s_sources = [''Camera 1''], s_host = Some ''c1'', s_clients = [''c2''], s_createdAt = 0,
        s_status = Active, s_hostEndpoint = None, s_clientEndpoints = None\<rparr>"
  have a: "connections clientRegistered ''c1'' = Some ?fc"
    by (simp add: clientRegistered_eq)
  have b: "getSession clientRegistered (c_sessionCode ?fc) = Some ?s"
    by (simp add: clientRegistered_eq)
  have c: "relayed (m_type offer)"
    by (simp add: relayed_def offer_def)
  have d: "\<not> truthyOpt (m_targetId offer)"
    by (simp add: offer_def)
  from broadcast_receivers [OF a b c d] show ?thesis
    by (simp add: clientRegistered_eq)
qed

text \<open>
  C3. The claim is that a host's broadcast reaches exactly the currently registered clients
  of its session and no connection outside that session, that a client's broadcast reaches
  only the session's host, and that the sender is left out. The client list of a session is
  the list the broadcast loops over, and a client leaves it only when it disconnects while it
  is registered to that session: a \<open>register\<close> for another session does not take the
  connection out of the lists of the session it was in. Here \<open>c2\<close> registered as client of
  \<open>AAAAAA\<close> and then as host of \<open>BBBBBB\<close>. In the reachable state that results, \<open>c2\<close> is the
  host of \<open>BBBBBB\<close>, its own session code is \<open>BBBBBB\<close>, it is still in the client list of
  \<open>AAAAAA\<close>, and the broadcast of \<open>c1\<close>, the host of \<open>AAAAAA\<close>, is delivered to it.
\<close>

theorem host_broadcast_reaches_moved_client:
  "reachable clientMoved
   \<and> connections clientMoved ''c1'' = Some \<lparr>c_role = Some ''host'', c_sessionCode = Some ''AAAAAA''\<rparr>
   \<and> connections clientMoved ''c2'' = Some \<lparr>c_role = Some ''host'', c_sessionCode = Some ''BBBBBB''\<rparr>
   \<and> s_host (the (sessions clientMoved ''BBBBBB'')) = Some ''c2''
   \<and> s_clients (the (sessions clientMoved ''AAAAAA'')) = [''c2'']
   \<and> snd (onMessage clientMoved ''c1'' offer) = [(''c2'', MForward offer ''c1'')]"
proof -
  have "connections clientMoved ''c1'' = Some \<lparr>c_role = Some ''host'', c_sessionCode = Some ''AAAAAA''\<rparr>
     \<and> connections clientMoved ''c2'' = Some \<lparr>c_role = Some ''host'', c_sessionCode = Some ''BBBBBB''\<rparr>
     \<and> s_host (the (sessions clientMoved ''BBBBBB'')) = Some ''c2''
     \<and> s_clients (the (sessions clientMoved ''AAAAAA'')) = [''c2'']"
    by (simp add: clientMoved_eq)
  moreover have "snd (onMessage clientMoved ''c1'' offer) = [(''c2'', MForward offer ''c1'')]"
    by (simp add: clientMoved_eq onMessage_def handleSignal_def relayed_def forwardSignal_def
        broadcastPeers_def offer_def)
  ultimately show ?thesis
    using reachable_clientMoved by blast
qed

section \<open>Registering for a session that does not exist\<close>

text \<open>
  C4, as amended. When a connection sends \<open>register\<close> with a code that names no session, the
  server answers that connection with the error \<open>Session not found\<close> and sends nothing else;
  sessions and hosts are unchanged; the connection's role and session code are set to the
  role and code of the message.
\<close>

theorem register_unknown_session:
  assumes "connections st cid = Some conn"
    and "m_type d = ''register''"
    and "getSession st (m_code d) = None"
  shows "onMessage st cid d =
           (st\<lparr>connections := (connections st)(cid \<mapsto>
                  conn\<lparr>c_role := m_role d, c_sessionCode := m_code d\<rparr>)\<rparr>,
            [(cid, MError ''Session not found'')])"
  using assms
  by (cases "m_code d") (simp_all add: onMessage_def handleSignal_def register_def Let_def)

text \<open>The theorem for a fresh connection \<open>c1\<close> and the unknown code \<open>NOPE22\<close>.\<close>

theorem register_unknown_session_witness:
  "onMessage loneConnection ''c1'' (registerAs ''client'' ''NOPE22'') =
     (loneConnection\<lparr>connections := [''c1'' \<mapsto> \<lparr>c_role = Some ''client'', c_sessionCode = Some ''NOPE22''\<rparr>]\<rparr>,
      [(''c1'', MError ''Session not found'')])"
proof -
  have a: "connections loneConnection ''c1'' = Some \<lparr>c_role = None, c_sessionCode = None\<rparr>"
    by (simp add: loneConnection_def connect_def init_def)
  have b: "m_type (registerAs ''client'' ''NOPE22'') = ''register''"
    by (simp add: registerAs_def)
  have c: "getSession loneConnection (m_code (registerAs ''client'' ''NOPE22'')) = None"
    by (simp add: loneConnection_def connect_def init_def registerAs_def)
  from register_unknown_session [OF a b c] show ?thesis
    by (simp add: registerAs_def loneConnection_def connect_def init_def)
qed

text \<open>
  C4 as stated fails: the fresh connection \<open>c1\<close> has no role and no session code; after its
  \<open>register\<close> for the unknown code \<open>NOPE22\<close> it got the error, and its role is \<open>client\<close> and
  its session code \<open>NOPE22\<close>.
\<close>

theorem register_unknown_session_sets_role:
  "connections loneConnection ''c1'' = Some \<lparr>c_role = None, c_sessionCode = None\<rparr>
   \<and> sessions loneConnection ''NOPE22'' = None
   \<and> snd (onMessage loneConnection ''c1'' (registerAs ''client'' ''NOPE22''))
       = [(''c1'', MError ''Session not found'')]
   \<and> connections (fst (onMessage loneConnection ''c1'' (registerAs ''client'' ''NOPE22''))) ''c1''
       = Some \<lparr>c_role = Some ''client'', c_sessionCode = Some ''NOPE22''\<rparr>"
  by (simp add: loneConnection_def connect_def init_def registerAs_def onMessage_def
      handleSignal_def register_def Let_def)

section \<open>The client list of a session\<close>

text \<open>
  C6, as amended. A \<open>register\<close> with role \<open>client\<close> for an existing session appends the
  connection id to the session's client list, whatever the list holds; the other sessions
  are unchanged. So a client list can hold a connection id more than once.
\<close>

theorem register_client_appends:
  assumes "connections st cid = Some conn"
    and "m_type d = ''register''" and "m_role d = Some ''client''"
    and "m_code d = Some code" and "sessions st code = Some s"
  shows "sessions (fst (onMessage st cid d)) =
           (sessions st)(code \<mapsto> s\<lparr>s_clients := s_clients s @ [cid]\<rparr>)"
  using assms
  by (simp add: onMessage_def handleSignal_def register_def Let_def)

text \<open>The theorem for \<open>c2\<close>, already a client of \<open>AAAAAA\<close>, registering again.\<close>

theorem register_client_appends_witness:
  "s_clients (the (sessions (fst (onMessage clientRegistered ''c2'' (registerAs ''client'' ''AAAAAA''))) ''AAAAAA''))
     = [''c2'', ''c2'']"
proof -
  let ?s = "\<lparr>s_code = ''AAAAAA'', s_hostId = Some ''h1'', s_bridgeName = Some ''Studio A'',
        s_sources = [''Camera 1''], s_host = Some ''c1'', s_clients = [''c2''], s_createdAt = 0,
        s_status = Active, s_hostEndpoint = None, s_clientEndpoints = None\<rparr>"
  have a: "connections clientRegistered ''c2'' = Some \<lparr>c_role = Some ''client'', c_sessionCode = Some ''AAAAAA''\<rparr>"
    by (simp add: clientRegistered_eq)
  have b: "m_type (registerAs ''client'' ''AAAAAA'') = ''register''"
    and c: "m_role (registerAs ''client'' ''AAAAAA'') = Some ''client''"
    and d: "m_code (registerAs ''client'' ''AAAAAA'') = Some ''AAAAAA''"
    by (simp_all add: registerAs_def)
  have e: "sessions clientRegistered ''AAAAAA'' = Some ?s"
    by (simp add: clientRegistered_eq)
  from register_client_appends [OF a b c d e] show ?thesis
    by simp
qed

text \<open>
  C6 as stated fails: the state reached when \<open>c2\<close> has sent \<open>register\<close> with role \<open>client\<close>
  twice for \<open>AAAAAA\<close> is reachable, and the client list of \<open>AAAAAA\<close> holds \<open>c2\<close> twice.
\<close>

theorem duplicate_client_entry:
  "reachable clientTwice
   \<and> s_clients (the (sessions clientTwice ''AAAAAA'')) = [''c2'', ''c2'']
   \<and> \<not> distinct (s_clients (the (sessions clientTwice ''AAAAAA'')))"
  by (rule conjI [OF reachable_clientTwice]) (simp add: clientTwice_eq)

section \<open>Acknowledging a connection request\<close>

lemma find_clientId_None:
  "clientId \<notin> r_clientId ` set cs \<Longrightarrow> List.find (\<lambda>c. r_clientId c = clientId) cs = None"
  by (auto simp: find_None_iff)

text \<open>
  C5, as amended. Acknowledging for a host id that is not in the registry leaves the state
  unchanged and answers 404 \<open>Host not found\<close>. Acknowledging for a registered host with no
  pending request of that client id leaves the state unchanged and answers success.
\<close>

theorem acknowledge_absent:
  "(map_of (hosts st) hostId = None \<longrightarrow>
      acknowledge st hostId clientId = (st, Fail 404 ''Host not found''))
   \<and> (\<forall>host. map_of (hosts st) hostId = Some host
          \<and> clientId \<notin> r_clientId ` set (h_connectedClients host) \<longrightarrow>
        acknowledge st hostId clientId = (st, Ok ()))"
  by (simp add: acknowledge_def find_clientId_None)

text \<open>The theorem on the empty registry and on the registry that holds the host \<open>studio\<close>
  with no pending request.\<close>

theorem acknowledge_absent_witness:
  "acknowledge init ''studio'' ''viewer'' = (init, Fail 404 ''Host not found'')
   \<and> acknowledge hostListed ''studio'' ''viewer'' = (hostListed, Ok ())"
proof -
  have a: "map_of (hosts init) ''studio'' = None"
    by (simp add: init_def)
  have b: "map_of (hosts hostListed) ''studio'' = Some studioHost"
    by (simp add: hostListed_eq)
  have c: "''viewer'' \<notin> r_clientId ` set (h_connectedClients studioHost)"
    by (simp add: studioHost_def)
  from acknowledge_absent [of init "''studio''" "''viewer''"] a
  have 1: "acknowledge init ''studio'' ''viewer'' = (init, Fail 404 ''Host not found'')"
    by simp
  from acknowledge_absent [of hostListed "''studio''" "''viewer''"] b c
  have 2: "acknowledge hostListed ''studio'' ''viewer'' = (hostListed, Ok ())"
    by blast
  from 1 2 show ?thesis by simp
qed

text \<open>
  C5 as stated fails: on the empty registry no host matches \<open>studio\<close>, and the answer to the
  acknowledgment is the failure 404 \<open>Host not found\<close>, not a success.
\<close>

theorem acknowledge_unknown_host_fails:
  "map_of (hosts init) ''studio'' = None
   \<and> snd (acknowledge init ''studio'' ''viewer'') = Fail 404 ''Host not found''
   \<and> snd (acknowledge init ''studio'' ''viewer'') \<noteq> Ok ()"
  by (simp add: acknowledge_def init_def)

section \<open>Requesting a connection\<close>

lemma find_source_None:
  "\<not> (\<exists>src \<in> set srcs. name src = n \<and> enabled src) \<Longrightarrow>
     List.find (\<lambda>s. name s = n \<and> enabled s) srcs = None"
  by (auto simp: find_None_iff)

lemma find_source_Some:
  "\<exists>src \<in> set srcs. name src = n \<and> enabled src \<Longrightarrow>
     \<exists>x. List.find (\<lambda>s. name s = n \<and> enabled s) srcs = Some x"
  by (cases "List.find (\<lambda>s. name s = n \<and> enabled s) srcs") (auto simp: find_None_iff)

lemma connectionRequest_fields:
  "connectionRequest b n rnd now =
     \<lparr>r_clientId = (case cb_clientId b of
                      None \<Rightarrow> generateCode rnd
                    | Some c \<Rightarrow> if c = [] then generateCode rnd else c),
      r_clientName = (case cb_clientName b of
                        None \<Rightarrow> ''Unknown Client''
                      | Some c \<Rightarrow> if c = [] then ''Unknown Client'' else c),
      r_requestedSource = n,
      r_publicIP = cb_publicIP b,
      r_publicPort = cb_publicPort b,
      r_requestedAt = now,
      r_acknowledged = False\<rparr>"
  by (cases "cb_clientId b"; cases "cb_clientName b") (simp_all add: connectionRequest_def truthy_def)

lemma cameraRequest_eq: "connectionRequest askCamera ''Camera 1'' zeros 2000 = cameraRequest"
  by (simp add: connectionRequest_fields askCamera_def cameraRequest_def)

lemma requestConnect_fail:
  assumes "map_of (hosts st) hostId = Some host"
    and "\<not> (\<exists>src \<in> set (h_sources host). Some (name src) = cb_sourceName b \<and> enabled src)"
  shows "requestConnect st hostId b rnd now = (st, Fail 404 ''Source not found or not shared'')"
proof (cases "cb_sourceName b")
  case None
  with assms(1) show ?thesis by (simp add: requestConnect_def)
next
  case (Some n)
  with assms(2) have "List.find (\<lambda>s. name s = n \<and> enabled s) (h_sources host) = None"
    by (intro find_source_None) auto
  with assms(1) Some show ?thesis by (simp add: requestConnect_def)
qed

lemma requestConnect_ok:
  assumes "map_of (hosts st) hostId = Some host"
    and "cb_sourceName b = Some n"
    and "\<exists>src \<in> set (h_sources host). name src = n \<and> enabled src"
  shows "requestConnect st hostId b rnd now =
     (st\<lparr>hosts := AList.update hostId
           (host\<lparr>h_connectedClients := h_connectedClients host @ [connectionRequest b n rnd now]\<rparr>)
           (hosts st)\<rparr>,
      Ok \<lparr>k_clientId = r_clientId (connectionRequest b n rnd now),
          k_hostPublicIP = h_publicIP host, k_hostPublicPort = h_publicPort host\<rparr>)"
proof -
  from assms(3) obtain x where "List.find (\<lambda>s. name s = n \<and> enabled s) (h_sources host) = Some x"
    using find_source_Some by blast
  with assms(1,2) show ?thesis by (simp add: requestConnect_def)
qed

lemma requestConnect_twice:
  assumes "map_of (hosts st) hostId = Some host"
  shows "(\<not> (\<exists>src \<in> set (h_sources host). Some (name src) = cb_sourceName b \<and> enabled src) \<longrightarrow>
            requestConnect st hostId b rnd now = (st, Fail 404 ''Source not found or not shared''))
       \<and> (\<forall>n. cb_sourceName b = Some n \<and> (\<exists>src \<in> set (h_sources host). name src = n \<and> enabled src) \<longrightarrow>
            requestConnect st hostId b rnd now =
              (st\<lparr>hosts := AList.update hostId
                    (host\<lparr>h_connectedClients :=
                       h_connectedClients host @ [connectionRequest b n rnd now]\<rparr>) (hosts st)\<rparr>,
               Ok \<lparr>k_clientId = r_clientId (connectionRequest b n rnd now),
                   k_hostPublicIP = h_publicIP host, k_hostPublicPort = h_publicPort host\<rparr>)
            \<and> map_of (hosts (fst (requestConnect (fst (requestConnect st hostId b rnd now))
                                  hostId b rnd' now'))) hostId =
                Some (host\<lparr>h_connectedClients :=
                        h_connectedClients host
                          @ [connectionRequest b n rnd now, connectionRequest b n rnd' now']\<rparr>))"
proof (intro conjI impI allI)
  assume "\<not> (\<exists>src \<in> set (h_sources host). Some (name src) = cb_sourceName b \<and> enabled src)"
  with assms show "requestConnect st hostId b rnd now = (st, Fail 404 ''Source not found or not shared'')"
    by (rule requestConnect_fail)
next
  fix n
  assume a: "cb_sourceName b = Some n \<and> (\<exists>src \<in> set (h_sources host). name src = n \<and> enabled src)"
  let ?h1 = "host\<lparr>h_connectedClients := h_connectedClients host @ [connectionRequest b n rnd now]\<rparr>"
  let ?st1 = "st\<lparr>hosts := AList.update hostId ?h1 (hosts st)\<rparr>"
  from assms a show 1: "requestConnect st hostId b rnd now =
      (?st1, Ok \<lparr>k_clientId = r_clientId (connectionRequest b n rnd now),
                 k_hostPublicIP = h_publicIP host, k_hostPublicPort = h_publicPort host\<rparr>)"
    by (intro requestConnect_ok) auto
  have m: "map_of (hosts ?st1) hostId = Some ?h1"
    by (simp add: update_conv')
  from a have "\<exists>src \<in> set (h_sources ?h1). name src = n \<and> enabled src"
    by simp
  with m a have "requestConnect ?st1 hostId b rnd' now' =
      (?st1\<lparr>hosts := AList.update hostId
           (?h1\<lparr>h_connectedClients := h_connectedClients ?h1 @ [connectionRequest b n rnd' now']\<rparr>)
           (hosts ?st1)\<rparr>,
       Ok \<lparr>k_clientId = r_clientId (connectionRequest b n rnd' now'),
           k_hostPublicIP = h_publicIP ?h1, k_hostPublicPort = h_publicPort ?h1\<rparr>)"
    by (intro requestConnect_ok) auto
  then show "map_of (hosts (fst (requestConnect (fst (requestConnect st hostId b rnd now))
                                  hostId b rnd' now'))) hostId =
                Some (host\<lparr>h_connectedClients :=
                        h_connectedClients host
                          @ [connectionRequest b n rnd now, connectionRequest b n rnd' now']\<rparr>)"
    by (simp add: 1 update_conv')
qed

text \<open>
  C7. For a registered host: when the named source is not one of the host's enabled sources
  (it does not exist, is disabled, or no name is given), \<open>requestConnect\<close> fails with 404
  \<open>Source not found or not shared\<close> and the state, so the host's pending list, is unchanged.
  Otherwise the call succeeds, returns the client id and the host's endpoint, and appends one
  request at the end of the host's pending list: not acknowledged, for the named source, with
  the caller's client id (a generated code when the caller gives none or an empty one), the
  caller's name (\<open>Unknown Client\<close> when none is given), address and port, and the time of the
  call. Nothing else changes. A second call with the same body appends a second such request
  after the first, with no look at the list: a duplicate of it up to the time and a generated
  client id.
\<close>

theorem requestConnect_source_check:
  assumes "map_of (hosts st) hostId = Some host"
  shows "(\<not> (\<exists>src \<in> set (h_sources host). Some (name src) = cb_sourceName b \<and> enabled src) \<longrightarrow>
            requestConnect st hostId b rnd now = (st, Fail 404 ''Source not found or not shared''))
       \<and> (\<forall>n. cb_sourceName b = Some n \<and> (\<exists>src \<in> set (h_sources host). name src = n \<and> enabled src) \<longrightarrow>
            (let entry = (\<lambda>r t.
                   \<lparr>r_clientId = (case cb_clientId b of
                                    None \<Rightarrow> generateCode r
                                  | Some c \<Rightarrow> if c = [] then generateCode r else c),
                    r_clientName = (case cb_clientName b of
                                      None \<Rightarrow> ''Unknown Client''
                                    | Some c \<Rightarrow> if c = [] then ''Unknown Client'' else c),
                    r_requestedSource = n,
                    r_publicIP = cb_publicIP b,
                    r_publicPort = cb_publicPort b,
                    r_requestedAt = t,
                    r_acknowledged = False\<rparr>)
             in requestConnect st hostId b rnd now =
                  (st\<lparr>hosts := AList.update hostId
                        (host\<lparr>h_connectedClients := h_connectedClients host @ [entry rnd now]\<rparr>)
                        (hosts st)\<rparr>,
                   Ok \<lparr>k_clientId = r_clientId (entry rnd now),
                       k_hostPublicIP = h_publicIP host, k_hostPublicPort = h_publicPort host\<rparr>)
                \<and> map_of (hosts (fst (requestConnect (fst (requestConnect st hostId b rnd now))
                                      hostId b rnd' now'))) hostId =
                    Some (host\<lparr>h_connectedClients :=
                            h_connectedClients host @ [entry rnd now, entry rnd' now']\<rparr>)))"
  using requestConnect_twice [OF assms, of b rnd now rnd' now']
  by (simp add: connectionRequest_fields Let_def)

text \<open>The theorem for the host \<open>studio\<close>: a request for its disabled source \<open>Screen\<close> fails;
  the request of \<open>viewer\<close> for \<open>Camera 1\<close> at time 2000 leaves the unacknowledged entry
  \<open>cameraRequest\<close>, and made twice it leaves that entry twice.\<close>

theorem requestConnect_source_check_witness:
  "requestConnect hostListed ''studio'' askScreen zeros 2000
     = (hostListed, Fail 404 ''Source not found or not shared'')
   \<and> requestConnect hostListed ''studio'' askCamera zeros 2000
     = (hostListed\<lparr>hosts := [(''studio'', studioHost\<lparr>h_connectedClients := [cameraRequest]\<rparr>)]\<rparr>,
        Ok \<lparr>k_clientId = ''viewer'', k_hostPublicIP = Some ''198.51.100.7'',
            k_hostPublicPort = 5961\<rparr>)
   \<and> map_of (hosts (fst (requestConnect hostAsked ''studio'' askCamera zeros 2000))) ''studio''
     = Some (studioHost\<lparr>h_connectedClients := [cameraRequest, cameraRequest]\<rparr>)
   \<and> r_clientId cameraRequest = ''viewer''
   \<and> r_requestedSource cameraRequest = ''Camera 1''
   \<and> r_requestedAt cameraRequest = 2000
   \<and> \<not> r_acknowledged cameraRequest"
proof -
  have a: "map_of (hosts hostListed) ''studio'' = Some studioHost"
    by (simp add: hostListed_eq)
  have b: "\<not> (\<exists>src \<in> set (h_sources studioHost). Some (name src) = cb_sourceName askScreen \<and> enabled src)"
    by (simp add: studioHost_def askScreen_def)
  have c: "cb_sourceName askCamera = Some ''Camera 1''
      \<and> (\<exists>src \<in> set (h_sources studioHost). name src = ''Camera 1'' \<and> enabled src)"
    by (simp add: studioHost_def askCamera_def)
  note t = requestConnect_source_check [OF a]
  from t [of askScreen zeros 2000] b
  have 1: "requestConnect hostListed ''studio'' askScreen zeros 2000
     = (hostListed, Fail 404 ''Source not found or not shared'')"
    by blast
  have e: "\<lparr>r_clientId = (case cb_clientId askCamera of
                            None \<Rightarrow> generateCode zeros
                          | Some c \<Rightarrow> if c = [] then generateCode zeros else c),
            r_clientName = (case cb_clientName askCamera of
                              None \<Rightarrow> ''Unknown Client''
                            | Some c \<Rightarrow> if c = [] then ''Unknown Client'' else c),
            r_requestedSource = ''Camera 1'',
            r_publicIP = cb_publicIP askCamera,
            r_publicPort = cb_publicPort askCamera,
            r_requestedAt = 2000,
            r_acknowledged = False\<rparr> = cameraRequest"
    by (simp add: askCamera_def cameraRequest_def)
  note t2 = t [of askCamera zeros 2000 zeros 2000, THEN conjunct2, rule_format, OF c]
  have f: "requestConnect hostListed ''studio'' askCamera zeros 2000
     = (hostListed\<lparr>hosts := AList.update ''studio''
           (studioHost\<lparr>h_connectedClients := h_connectedClients studioHost @ [cameraRequest]\<rparr>)
           (hosts hostListed)\<rparr>,
        Ok \<lparr>k_clientId = r_clientId cameraRequest, k_hostPublicIP = h_publicIP studioHost,
            k_hostPublicPort = h_publicPort studioHost\<rparr>)
   \<and> map_of (hosts (fst (requestConnect (fst (requestConnect hostListed ''studio'' askCamera zeros 2000))
                         ''studio'' askCamera zeros 2000))) ''studio''
     = Some (studioHost\<lparr>h_connectedClients :=
               h_connectedClients studioHost @ [cameraRequest, cameraRequest]\<rparr>)"
    by (rule t2 [unfolded Let_def e])
  have h: "hosts hostListed = [(''studio'', studioHost)]"
    and i: "h_connectedClients studioHost = []"
    and j: "h_publicIP studioHost = Some ''198.51.100.7''" "h_publicPort studioHost = 5961"
    and k: "r_clientId cameraRequest = ''viewer''"
    by (simp_all add: hostListed_eq studioHost_def cameraRequest_def)
  have g: "AList.update ''studio'' x [(''studio'', studioHost)] = [(''studio'', x)]" for x
    by simp
  have 2: "requestConnect hostListed ''studio'' askCamera zeros 2000
     = (hostListed\<lparr>hosts := [(''studio'', studioHost\<lparr>h_connectedClients := [cameraRequest]\<rparr>)]\<rparr>,
        Ok \<lparr>k_clientId = ''viewer'', k_hostPublicIP = Some ''198.51.100.7'',
            k_hostPublicPort = 5961\<rparr>)
   \<and> map_of (hosts (fst (requestConnect hostAsked ''studio'' askCamera zeros 2000))) ''studio''
     = Some (studioHost\<lparr>h_connectedClients := [cameraRequest, cameraRequest]\<rparr>)"
    unfolding hostAsked_def by (rule f [unfolded h i j k g append_Nil])
  have 3: "r_clientId cameraRequest = ''viewer'' \<and> r_requestedSource cameraRequest = ''Camera 1''
     \<and> r_requestedAt cameraRequest = 2000 \<and> \<not> r_acknowledged cameraRequest"
    by (simp add: cameraRequest_def)
  from 1 2 3 show ?thesis by simp
qed

section \<open>Listing the available hosts\<close>

lemma filter_enabled_nonempty: "(filter enabled srcs \<noteq> []) = (\<exists>src \<in> set srcs. enabled src)"
  by (simp add: filter_empty_conv)

lemma availableHosts_ids:
  "map l_hostId (availableHosts hs now) =
     map fst (filter (\<lambda>kh. now - h_lastHeartbeat (snd kh) < 45000
                            \<and> (\<exists>src \<in> set (h_sources (snd kh)). enabled src)) hs)"
  by (induction hs) (simp_all add: Let_def HOST_TIMEOUT_MS_def filter_enabled_nonempty)

lemma availableHosts_sweep:
  "availableHosts (filter (\<lambda>kh. \<not> (now - h_lastHeartbeat (snd kh) > HOST_TIMEOUT_MS)) hs) now
     = availableHosts hs now"
  by (induction hs) (simp_all add: Let_def)

text \<open>
  C8. At every reachable state and read time \<open>now\<close>, the host ids listed by
  \<open>listAvailableHosts\<close> are exactly those of the registered hosts with
  \<open>now - lastHeartbeat < 45000\<close> and at least one enabled source. A registered host whose last
  heartbeat is 45000 ms old or older is not listed although it is still in the registry, the
  listing is the same whether or not the sweep has just run, and no host is listed twice.
\<close>

theorem listAvailableHosts_exact:
  assumes "reachable st"
  shows "set (map l_hostId (listAvailableHosts st now)) =
           {k. \<exists>h. map_of (hosts st) k = Some h \<and> now - h_lastHeartbeat h < 45000
                    \<and> (\<exists>src \<in> set (h_sources h). enabled src)}
       \<and> (\<forall>k h. map_of (hosts st) k = Some h \<and> 45000 \<le> now - h_lastHeartbeat h \<longrightarrow>
             k \<notin> set (map l_hostId (listAvailableHosts st now)))
       \<and> listAvailableHosts (sweepHosts st now) now = listAvailableHosts st now
       \<and> distinct (map l_hostId (listAvailableHosts st now))"
proof -
  from assms have d: "distinct (map fst (hosts st))"
    by (auto dest: reachable_ok simp: state_ok_def)
  have 1: "set (map l_hostId (listAvailableHosts st now)) =
           {k. \<exists>h. map_of (hosts st) k = Some h \<and> now - h_lastHeartbeat h < 45000
                    \<and> (\<exists>src \<in> set (h_sources h). enabled src)}"
    using d by (auto simp: listAvailableHosts_def availableHosts_ids image_iff) blast+
  have 2: "listAvailableHosts (sweepHosts st now) now = listAvailableHosts st now"
    by (simp add: listAvailableHosts_def sweepHosts_def availableHosts_sweep)
  from 1 have 3: "\<forall>k h. map_of (hosts st) k = Some h \<and> 45000 \<le> now - h_lastHeartbeat h \<longrightarrow>
             k \<notin> set (map l_hostId (listAvailableHosts st now))"
    by auto
  from d have 4: "distinct (map l_hostId (listAvailableHosts st now))"
    by (simp add: listAvailableHosts_def availableHosts_ids distinct_map_filter)
  from 1 2 3 4 show ?thesis by blast
qed

text \<open>The theorem for the host \<open>studio\<close>, last heard at time 1000: listed at time 2000; at
  time 46000 still in the registry, also after a sweep, and not listed.\<close>

theorem listAvailableHosts_exact_witness:
  "map l_hostId (listAvailableHosts hostListed 2000) = [''studio'']
   \<and> map_of (hosts hostListed) ''studio'' = Some studioHost
   \<and> map_of (hosts (sweepHosts hostListed 46000)) ''studio'' = Some studioHost
   \<and> ''studio'' \<notin> set (map l_hostId (listAvailableHosts hostListed 46000))"
proof -
  have a: "map_of (hosts hostListed) ''studio'' = Some studioHost"
    by (simp add: hostListed_eq)
  have b: "(45000::int) \<le> 46000 - h_lastHeartbeat studioHost"
    by (simp add: studioHost_def)
  from listAvailableHosts_exact [OF reachable_hostListed, of 46000] a b
  have "''studio'' \<notin> set (map l_hostId (listAvailableHosts hostListed 46000))"
    by blast
  moreover have "map l_hostId (listAvailableHosts hostListed 2000) = [''studio'']"
    by (simp add: listAvailableHosts_def hostListed_eq studioHost_def HOST_TIMEOUT_MS_def)
  moreover have "map_of (hosts (sweepHosts hostListed 46000)) ''studio'' = Some studioHost"
    by (simp add: sweepHosts_def hostListed_eq studioHost_def HOST_TIMEOUT_MS_def)
  ultimately show ?thesis using a by simp
qed

section \<open>Endpoint discovery\<close>







section \<open>Registering a host again\<close>

text \<open>
  C10. At every reachable state, a \<open>registerHost\<close> call that passes validation (a non-empty
  \<open>computerName\<close> and a \<open>sources\<close> array) with a \<open>hostId\<close> that is in the registry replaces the
  entry by a new one built from the body: \<open>registeredAt\<close> is that of the old entry, the list
  of pending requests is empty. A heartbeat that follows returns no pending request, whatever
  was queued before.
\<close>

theorem reregister_discards_pending:
  assumes "reachable st"
    and "map_of (hosts st) k = Some old"
    and "rb_hostId b = Some k"
    and "rb_computerName b = Some n" and "truthy n"
    and "rb_sources b = Some srcs"
  shows "map_of (hosts (fst (registerHost st b genId reqIP now))) k =
           Some \<lparr>h_hostId = k, h_computerName = n, h_sources = srcs,
                 h_publicIP = orElse (rb_publicIP b) reqIP,
                 h_publicPort = (case rb_publicPort b of
                                   None \<Rightarrow> 5961 | Some p \<Rightarrow> if p = 0 then 5961 else p),
                 h_registeredAt = h_registeredAt old, h_lastHeartbeat = now,
                 h_connectedClients = []\<rparr>
       \<and> snd (heartbeat (fst (registerHost st b genId reqIP now)) k hb reqIP' now') = Ok []"
proof -
  from assms(1,2) have "truthy k"
    by (auto dest: reachable_ok map_of_truthy)
  with assms(3) have i: "orDefault (rb_hostId b) genId = k"
    by simp
  let ?new = "\<lparr>h_hostId = k, h_computerName = n, h_sources = srcs,
                 h_publicIP = orElse (rb_publicIP b) reqIP,
                 h_publicPort = (case rb_publicPort b of
                                   None \<Rightarrow> 5961 | Some p \<Rightarrow> if p = 0 then 5961 else p),
                 h_registeredAt = h_registeredAt old, h_lastHeartbeat = now,
                 h_connectedClients = []\<rparr>"
  from assms(2,4,5,6) i
  have 1: "fst (registerHost st b genId reqIP now) = st\<lparr>hosts := AList.update k ?new (hosts st)\<rparr>"
    by (simp add: registerHost_def Let_def)
  then have 2: "map_of (hosts (fst (registerHost st b genId reqIP now))) k = Some ?new"
    by (simp add: update_conv')
  then have "snd (heartbeat (fst (registerHost st b genId reqIP now)) k hb reqIP' now') = Ok []"
    by (simp add: heartbeat_def Let_def split: option.splits)
  with 2 show ?thesis by simp
qed

lemma pending_before:
  "snd (heartbeat hostAsked ''studio'' noBeat None 3000)
     = Ok [pendingView (connectionRequest askCamera ''Camera 1'' zeros 2000)]"
  by (simp add: heartbeat_def hostAsked_eq noBeat_def Let_def orElse_def connectionRequest_def)

text \<open>The theorem for the host \<open>studio\<close> with one pending request: a heartbeat returns the
  request; after registering again, \<open>registeredAt\<close> is still 1000 and a heartbeat returns
  nothing.\<close>

theorem reregister_discards_pending_witness:
  "snd (heartbeat hostAsked ''studio'' noBeat None 3000)
     = Ok [pendingView (connectionRequest askCamera ''Camera 1'' zeros 2000)]
   \<and> map_of (hosts (fst (registerHost hostAsked camBody ''abcdefghijklmnop'' None 4000))) ''studio''
     = Some (studioHost\<lparr>h_publicIP := None, h_lastHeartbeat := 4000\<rparr>)
   \<and> snd (heartbeat (fst (registerHost hostAsked camBody ''abcdefghijklmnop'' None 4000))
            ''studio'' noBeat None 5000) = Ok []"
proof -
  let ?old = "studioHost\<lparr>h_connectedClients := [connectionRequest askCamera ''Camera 1'' zeros 2000]\<rparr>"
  have a: "map_of (hosts hostAsked) ''studio'' = Some ?old"
    by (simp add: hostAsked_eq)
  have b: "rb_hostId camBody = Some ''studio''" and c: "rb_computerName camBody = Some ''Mac''"
    and d: "truthy ''Mac''"
    and e: "rb_sources camBody = Some [\<lparr>name = ''Camera 1'', enabled = True\<rparr>,
                                        \<lparr>name = ''Screen'', enabled = False\<rparr>]"
    by (simp_all add: camBody_def truthy_def)
  from reregister_discards_pending [OF reachable_hostAsked a b c d e,
      of "''abcdefghijklmnop''" None 4000 noBeat None 5000]
  show ?thesis
    by (simp add: pending_before studioHost_def camBody_def orElse_def)
qed

end
